theory Spec2Isabelle
  imports Complex_Main
begin

section \<open>Values of the Python program\<close>

text \<open>
  A Python \<open>str\<close> is a sequence of Unicode code points, so it is modelled as a list of
  natural numbers; \<open>ascii\<close> embeds an ASCII literal. The texts of \<open>ciis.py\<close> that hold
  emoji are written with their code points.
\<close>

type_synonym pystr = "nat list"

definition ascii :: "string \<Rightarrow> pystr" where
  "ascii s = map of_char s"

text \<open>
  A Python \<open>float\<close> that is finite is a rational number, and Python compares two finite
  floats as the rationals they denote. Scores are therefore rationals: a polarity lies
  between \<open>-1\<close> and \<open>1\<close> and a toxicity score between \<open>0\<close> and \<open>1\<close>, so
  neither is infinite or not a number. The literal \<open>0.2\<close> of the source is the double
  nearest to one fifth, which is \<open>3602879701896397 / 2^54\<close>; \<open>0.5\<close> is exact.
\<close>

type_synonym pyfloat = rat

definition float_0_2 :: pyfloat where
  "float_0_2 = 3602879701896397 / 18014398509481984"

definition float_0_5 :: pyfloat where
  "float_0_5 = 1 / 2"

text \<open>The double nearest to \<open>0.6\<close>, a polarity of the specification's scenario.\<close>

definition float_0_6 :: pyfloat where
  "float_0_6 = 5404319552844595 / 9007199254740992"

datatype error = IndexError | KeyError | LibraryError

text \<open>\<open>and_then\<close> sequences two steps of which the first may raise.\<close>

definition and_then :: "error + 'a \<Rightarrow> ('a \<Rightarrow> error + 'b) \<Rightarrow> error + 'b" where
  "and_then r f = (case r of Inl e \<Rightarrow> Inl e | Inr x \<Rightarrow> f x)"

text \<open>\<open>xs[0]\<close>: the first item, IndexError on an empty list.\<close>

definition item0 :: "'a list \<Rightarrow> error + 'a" where
  "item0 xs = (case xs of [] \<Rightarrow> Inl IndexError | x # _ \<Rightarrow> Inr x)"

text \<open>
  A counting dictionary keeps its insertion order (the charts read \<open>keys()\<close> and
  \<open>values()\<close>), so it is an association list. \<open>dict_incr k d\<close> is \<open>d[k] += 1\<close>, which
  raises KeyError when the key is missing.
\<close>

type_synonym counts = "(pystr \<times> int) list"

fun dict_incr :: "pystr \<Rightarrow> counts \<Rightarrow> error + counts" where
  "dict_incr k [] = Inl KeyError"
| "dict_incr k ((k', v) # d) =
     (if k' = k then Inr ((k', v + 1) # d)
      else (case dict_incr k d of Inl e \<Rightarrow> Inl e | Inr d' \<Rightarrow> Inr ((k', v) # d')))"

section \<open>Sentiment branch (lines 119-128)\<close>

definition Positive :: pystr where "Positive = ascii ''Positive''"
definition Negative :: pystr where "Negative = ascii ''Negative''"
definition Neutral :: pystr where "Neutral = ascii ''Neutral''"

text \<open>
  The \<open>if\<close>/\<open>elif\<close>/\<open>else\<close> on the polarity: the label chosen and the counter of the
  same name incremented.
\<close>

definition sentiment_branch :: "pyfloat \<Rightarrow> counts \<Rightarrow> error + (pystr \<times> counts)" where
  "sentiment_branch sentiment sentiment_counts =
     (if sentiment > float_0_2 then
        and_then (dict_incr Positive sentiment_counts) (\<lambda>c. Inr (Positive, c))
      else if sentiment < - float_0_2 then
        and_then (dict_incr Negative sentiment_counts) (\<lambda>c. Inr (Negative, c))
      else
        and_then (dict_incr Neutral sentiment_counts) (\<lambda>c. Inr (Neutral, c)))"

section \<open>Toxicity branch (lines 133-138)\<close>

text \<open>
  \<open>f"{x:.2f}"\<close> rounds the exact value of the float to two decimals, ties to even, and
  prints the sign, the integer digits, a point and two digits.
\<close>

fun digits :: "nat \<Rightarrow> pystr" where
  "digits n = (if n < 10 then [48 + n] else digits (n div 10) @ [48 + n mod 10])"

definition round_half_even :: "rat \<Rightarrow> int" where
  "round_half_even q =
     (let f = \<lfloor>q\<rfloor>; d = q - of_int f
      in if d < 1 / 2 then f else if 1 / 2 < d then f + 1 else if even f then f else f + 1)"

definition fmt_2f :: "pyfloat \<Rightarrow> pystr" where
  "fmt_2f x =
     (let n = nat (round_half_even (\<bar>x\<bar> * 100))
      in (if x < 0 then ascii ''-'' else []) @ digits (n div 100)
         @ [46, 48 + n mod 100 div 10, 48 + n mod 10])"

definition Toxic :: pystr where "Toxic = ascii ''Toxic''"
definition Safe :: pystr where "Safe = ascii ''Safe''"

text \<open>The two f-strings: WARNING SIGN, VARIATION SELECTOR-16 and WHITE HEAVY CHECK MARK.\<close>

definition toxic_text :: "pyfloat \<Rightarrow> pystr" where
  "toxic_text toxic_score = [0x26A0, 0xFE0F] @ ascii '' Toxic ('' @ fmt_2f toxic_score @ ascii '')''"

definition safe_text :: "pyfloat \<Rightarrow> pystr" where
  "safe_text toxic_score = [0x2705] @ ascii '' Safe ('' @ fmt_2f toxic_score @ ascii '')''"

definition toxicity_branch :: "pyfloat \<Rightarrow> counts \<Rightarrow> error + (pystr \<times> counts)" where
  "toxicity_branch toxic_score toxic_counts =
     (if toxic_score > float_0_5 then
        and_then (dict_incr Toxic toxic_counts) (\<lambda>c. Inr (toxic_text toxic_score, c))
      else
        and_then (dict_incr Safe toxic_counts) (\<lambda>c. Inr (safe_text toxic_score, c)))"

text \<open>
  What "rendered to two decimal places" means, in the spec's words: an optional minus
  sign, decimal digits, a point and exactly two digits, whose decimal value is the
  multiple of one hundredth nearest to the score (within half a hundredth of it).
\<close>

definition is_digit :: "nat \<Rightarrow> bool" where
  "is_digit c = (48 \<le> c \<and> c \<le> 57)"

definition dec_val :: "pystr \<Rightarrow> nat" where
  "dec_val s = foldl (\<lambda>a c. 10 * a + (c - 48)) 0 s"

definition rendered_2dp :: "rat \<Rightarrow> pystr \<Rightarrow> bool" where
  "rendered_2dp x r =
     (\<exists>ip d1 d2.
        r = (if x < 0 then ascii ''-'' else []) @ ip @ [46, d1, d2]
        \<and> ip \<noteq> [] \<and> list_all is_digit ip \<and> is_digit d1 \<and> is_digit d2
        \<and> \<bar>\<bar>x\<bar> - (of_nat (dec_val ip) + of_nat (d1 - 48) / 10 + of_nat (d2 - 48) / 100)\<bar>
            \<le> 1 / 200)"

section \<open>Tables and the external libraries\<close>

text \<open>
  A cell of a DataFrame: a string, a number, a boolean or the missing value. A
  DataFrame is its column names and its rows, one cell per column in every row.
\<close>

datatype cell = Str pystr | Num rat | Bool bool | NaN

record table =
  columns :: "pystr list"
  rows :: "cell list list"

record prediction =
  label :: pystr
  score :: pyfloat

type_synonym bytes = string

type_synonym classifier = "cell \<Rightarrow> error + prediction list list"

text \<open>
  The libraries the script calls are parameters of the model: the transformers
  \<open>pipeline(...)\<close> call of \<open>load_model\<close>, which gives the toxicity classifier or raises;
  \<open>TextBlob(post).sentiment.polarity\<close>; pandas' \<open>read_csv\<close> and \<open>to_csv\<close> (the bytes
  written with \<open>index=False\<close>).
\<close>

record lib =
  pipeline :: "error + classifier"
  polarity :: "cell \<Rightarrow> error + pyfloat"
  read_csv :: "bytes \<Rightarrow> error + table"
  to_csv :: "table \<Rightarrow> bytes"

definition load_model :: "lib \<Rightarrow> error + classifier" where
  "load_model L = pipeline L"

text \<open>
  \<open>pd.concat([a, b], ignore_index=True)\<close>: the columns of \<open>a\<close>, then those of \<open>b\<close> that
  \<open>a\<close> lacks; the rows of \<open>a\<close>, then the rows of \<open>b\<close>, each read under the joint columns
  with the missing value where a frame has no such column.
\<close>

definition cell_at :: "pystr list \<Rightarrow> cell list \<Rightarrow> pystr \<Rightarrow> cell" where
  "cell_at cols r c = (case map_of (zip cols r) c of Some v \<Rightarrow> v | None \<Rightarrow> NaN)"

definition reindex :: "pystr list \<Rightarrow> table \<Rightarrow> cell list list" where
  "reindex cols t = map (\<lambda>r. map (cell_at (columns t) r) cols) (rows t)"

definition pd_concat :: "table \<Rightarrow> table \<Rightarrow> table" where
  "pd_concat a b =
     (let cols = columns a @ filter (\<lambda>c. c \<notin> set (columns a)) (columns b)
      in \<lparr>columns = cols, rows = reindex cols a @ reindex cols b\<rparr>)"

text \<open>\<open>df.empty\<close>: no rows or no columns.\<close>

definition df_empty :: "table \<Rightarrow> bool" where
  "df_empty t = (rows t = [] \<or> columns t = [])"

text \<open>\<open>df[c].dropna().tolist()\<close>: the cells of column \<open>c\<close> that are not missing.\<close>

definition column_dropna :: "table \<Rightarrow> pystr \<Rightarrow> cell list" where
  "column_dropna t c = filter (\<lambda>v. v \<noteq> NaN) (map (\<lambda>r. cell_at (columns t) r c) (rows t))"

section \<open>History file (lines 20-31)\<close>

text \<open>
  The state of the file system that the script reads and writes is the content of
  \<open>analysis_history.csv\<close>, or \<open>None\<close> when the file does not exist.
\<close>

type_synonym history_file = "bytes option"

definition history_columns :: "pystr list" where
  "history_columns = [ascii ''Post'', ascii ''Sentiment'', ascii ''Toxicity'']"

definition load_history :: "lib \<Rightarrow> history_file \<Rightarrow> error + table" where
  "load_history L f =
     (case f of
        Some content \<Rightarrow> read_csv L content
      | None \<Rightarrow> Inr \<lparr>columns = history_columns, rows = []\<rparr>)"

definition save_history :: "lib \<Rightarrow> table \<Rightarrow> history_file \<Rightarrow> (error + table) \<times> history_file" where
  "save_history L df_new f =
     (case load_history L f of
        Inl e \<Rightarrow> (Inl e, f)
      | Inr df_history \<Rightarrow>
          (let df_all = pd_concat df_history df_new
           in (Inr df_all, Some (to_csv L df_all))))"

section \<open>Input handling (lines 89-109)\<close>

text \<open>
  \<open>str.strip()\<close> removes the leading and trailing code points that Python counts as
  white space; \<open>str.split("\n")\<close> cuts at every line feed and keeps empty pieces.
\<close>

definition py_isspace :: "nat \<Rightarrow> bool" where
  "py_isspace c =
     ((0x09 \<le> c \<and> c \<le> 0x0D) \<or> (0x1C \<le> c \<and> c \<le> 0x20) \<or> c = 0x85 \<or> c = 0xA0
      \<or> c = 0x1680 \<or> (0x2000 \<le> c \<and> c \<le> 0x200A) \<or> c = 0x2028 \<or> c = 0x2029
      \<or> c = 0x202F \<or> c = 0x205F \<or> c = 0x3000)"

definition py_strip :: "pystr \<Rightarrow> pystr" where
  "py_strip s = rev (dropWhile py_isspace (rev (dropWhile py_isspace s)))"

fun py_split :: "nat \<Rightarrow> pystr \<Rightarrow> pystr list" where
  "py_split sep [] = [[]]"
| "py_split sep (c # cs) =
     (if c = sep then [] # py_split sep cs
      else (case py_split sep cs of [] \<Rightarrow> [[c]] | l # ls \<Rightarrow> (c # l) # ls))"

text \<open>
  What the script shows in response to the input and the history. The title, the tab
  headers, the input widgets and the sub-headers that are drawn on every run are the
  same whatever the input is, and are left out.
\<close>

datatype event =
    Warning pystr
  | Error pystr
  | Info pystr
  | Subheader pystr
  | Dataframe table
  | Pie_chart counts
  | Bar_chart counts
  | Download_button pystr bytes pystr

text \<open>
  What the user did in the Analyzer tab: the radio choice with, for text entry, the
  content of the text area and whether the button was pressed, and for the upload the
  bytes of the uploaded file, if any.
\<close>

datatype user_action = Enter_Text pystr bool | Upload_CSV "bytes option"

definition please_enter :: pystr where
  "please_enter = [0x26A0, 0xFE0F] @ ascii '' Please enter some posts to analyze.''"

definition must_contain_post :: pystr where
  "must_contain_post = [0x274C] @ ascii '' CSV must contain a column named ''
     @ [39] @ ascii ''post'' @ [39]"

text \<open>Lines 93-100: the posts of the text area, and what is shown.\<close>

definition text_posts :: "pystr \<Rightarrow> bool \<Rightarrow> cell list \<times> event list" where
  "text_posts user_input pressed =
     (if pressed then
        (if py_strip user_input \<noteq> [] then (map Str (py_split 10 (py_strip user_input)), [])
         else ([], [Warning please_enter]))
      else ([], []))"

text \<open>Lines 102-109: the posts of the uploaded file, and what is shown.\<close>

definition csv_posts :: "lib \<Rightarrow> bytes option \<Rightarrow> error + (cell list \<times> event list)" where
  "csv_posts L uploaded_file =
     (case uploaded_file of
        None \<Rightarrow> Inr ([], [])
      | Some content \<Rightarrow>
          and_then (read_csv L content) (\<lambda>df.
            if ascii ''post'' \<notin> set (columns df) then Inr ([], [Error must_contain_post])
            else Inr (column_dropna df (ascii ''post''), [])))"

definition choose_posts :: "lib \<Rightarrow> user_action \<Rightarrow> error + (cell list \<times> event list)" where
  "choose_posts L a =
     (case a of
        Enter_Text user_input pressed \<Rightarrow> Inr (text_posts user_input pressed)
      | Upload_CSV uploaded_file \<Rightarrow> csv_posts L uploaded_file)"

section \<open>Analysis loop (lines 112-172)\<close>

record acc =
  results :: "(cell \<times> pystr \<times> pystr) list"
  sentiment_counts :: counts
  toxic_counts :: counts

definition acc0 :: acc where
  "acc0 = \<lparr>results = [],
          sentiment_counts = [(Positive, 0), (Negative, 0), (Neutral, 0)],
          toxic_counts = [(Toxic, 0), (Safe, 0)]\<rparr>"

text \<open>Lines 131-132: the score of the prediction labelled \<open>toxic\<close>.\<close>

definition toxic_score_of :: "classifier \<Rightarrow> cell \<Rightarrow> error + pyfloat" where
  "toxic_score_of toxic_model post =
     and_then (toxic_model post) (\<lambda>out.
     and_then (item0 out) (\<lambda>predictions.
     and_then (item0 (filter (\<lambda>p. label p = ascii ''toxic'') predictions)) (\<lambda>p.
     Inr (score p))))"

text \<open>The body of the loop, for one post.\<close>

definition analyze_post :: "lib \<Rightarrow> classifier \<Rightarrow> acc \<Rightarrow> cell \<Rightarrow> error + acc" where
  "analyze_post L toxic_model a post =
     and_then (polarity L post) (\<lambda>sentiment.
     and_then (sentiment_branch sentiment (sentiment_counts a)) (\<lambda>(sentiment_label, sc).
     and_then (toxic_score_of toxic_model post) (\<lambda>toxic_score.
     and_then (toxicity_branch toxic_score (toxic_counts a)) (\<lambda>(toxicity, tc).
     Inr \<lparr>results = results a @ [(post, sentiment_label, toxicity)],
          sentiment_counts = sc, toxic_counts = tc\<rparr>))))"

text \<open>\<open>for post in posts\<close>: the first exception ends the run.\<close>

fun analyze_posts :: "lib \<Rightarrow> classifier \<Rightarrow> cell list \<Rightarrow> acc \<Rightarrow> error + acc" where
  "analyze_posts L toxic_model [] a = Inr a"
| "analyze_posts L toxic_model (post # posts) a =
     (case analyze_post L toxic_model a post of
        Inl e \<Rightarrow> Inl e
      | Inr a' \<Rightarrow> analyze_posts L toxic_model posts a')"

text \<open>\<open>pd.DataFrame(results, columns=[...])\<close>.\<close>

definition results_df :: "acc \<Rightarrow> table" where
  "results_df a =
     \<lparr>columns = history_columns,
      rows = map (\<lambda>(post, sentiment_label, toxicity). [post, Str sentiment_label, Str toxicity])
               (results a)\<rparr>"

definition analysis_results :: pystr where
  "analysis_results = [0x1F4CA] @ ascii '' Analysis Results''"

definition sentiment_distribution :: pystr where
  "sentiment_distribution = [0x1F4C8] @ ascii '' Sentiment Distribution''"

definition toxic_vs_safe :: pystr where
  "toxic_vs_safe = [0x26A0, 0xFE0F] @ ascii '' Toxic vs Safe Posts''"

text \<open>
  The block under \<open>if posts:\<close>. The result is the exception that ended the script, if
  any, the history file afterwards and what was shown.
\<close>

definition run_analysis ::
  "lib \<Rightarrow> classifier \<Rightarrow> cell list \<Rightarrow> history_file \<Rightarrow> (error + acc) \<times> history_file \<times> event list" where
  "run_analysis L toxic_model posts f =
     (case analyze_posts L toxic_model posts acc0 of
        Inl e \<Rightarrow> (Inl e, f, [])
      | Inr a \<Rightarrow>
          (case save_history L (results_df a) f of
             (Inl e, f') \<Rightarrow> (Inl e, f', [])
           | (Inr df_all, f') \<Rightarrow>
               (Inr a, f',
                [Subheader analysis_results, Dataframe (results_df a),
                 Subheader sentiment_distribution, Pie_chart (sentiment_counts a),
                 Subheader toxic_vs_safe, Bar_chart (toxic_counts a)])))"

text \<open>
  The Analyzer tab. \<open>None\<close> as the analysis means that the block under \<open>if posts:\<close> was
  not entered, so that no post was classified.
\<close>

definition analyzer_tab ::
  "lib \<Rightarrow> classifier \<Rightarrow> user_action \<Rightarrow> history_file
     \<Rightarrow> (error + acc option) \<times> history_file \<times> event list" where
  "analyzer_tab L toxic_model action f =
     (case choose_posts L action of
        Inl e \<Rightarrow> (Inl e, f, [])
      | Inr (posts, shown) \<Rightarrow>
          if posts \<noteq> [] then
            (case run_analysis L toxic_model posts f of
               (Inl e, f', shown') \<Rightarrow> (Inl e, f', shown @ shown')
             | (Inr a, f', shown') \<Rightarrow> (Inr (Some a), f', shown @ shown'))
          else (Inr None, f, shown))"

section \<open>History tab (lines 177-192)\<close>

definition download_label :: pystr where
  "download_label = [0x2B07, 0xFE0F] @ ascii '' Download Full History as CSV''"

definition no_history :: pystr where
  "no_history = [0x2139, 0xFE0F]
     @ ascii '' No history found yet. Run an analysis to start building history.''"

definition history_tab :: "lib \<Rightarrow> history_file \<Rightarrow> error + event list" where
  "history_tab L f =
     and_then (load_history L f) (\<lambda>history_df.
       if \<not> df_empty history_df then
         Inr [Dataframe history_df,
              Download_button download_label (to_csv L history_df)
                (ascii ''cyberbro_full_history.csv'')]
       else Inr [Info no_history])"

text \<open>
  One run of the script: the model is loaded at line 15 before anything else, then the
  two tabs are drawn in order; an exception ends the run where it is raised.
\<close>

definition app ::
  "lib \<Rightarrow> user_action \<Rightarrow> history_file \<Rightarrow> (error + acc option) \<times> history_file \<times> event list" where
  "app L action f =
     (case load_model L of
        Inl e \<Rightarrow> (Inl e, f, [])
      | Inr toxic_model \<Rightarrow>
          (case analyzer_tab L toxic_model action f of
             (Inl e, f', shown) \<Rightarrow> (Inl e, f', shown)
           | (Inr a, f', shown) \<Rightarrow>
               (case history_tab L f' of
                  Inl e \<Rightarrow> (Inl e, f', shown)
                | Inr shown' \<Rightarrow> (Inr a, f', shown @ shown'))))"

section \<open>Notions of the specification\<close>

text \<open>
  A History Table, and a batch of Post Records: the three fixed columns and one cell
  per column in every row.
\<close>

definition history_table :: "table \<Rightarrow> bool" where
  "history_table t = (columns t = history_columns \<and> list_all (\<lambda>r. length r = 3) (rows t))"

text \<open>A call that returns rather than raises.\<close>

definition succeeds :: "error + 'a \<Rightarrow> bool" where
  "succeeds r = (case r of Inl _ \<Rightarrow> False | Inr _ \<Rightarrow> True)"

text \<open>A post on which both classifiers answer: a polarity and a score labelled \<open>toxic\<close>.\<close>

definition classifiable :: "lib \<Rightarrow> classifier \<Rightarrow> cell \<Rightarrow> bool" where
  "classifiable L toxic_model post =
     (succeeds (polarity L post) \<and> succeeds (toxic_score_of toxic_model post))"

section \<open>A library instance for the examples\<close>

text \<open>
  The examples run the script against fixed answers of the libraries: a polarity for
  a few texts and zero for any other text (an exception for a post that is no string),
  a classifier whose output for the text \<open>odd\<close> has no \<open>toxic\<close> entry, and a history
  file of one row.
\<close>

definition demo_polarity :: "cell \<Rightarrow> error + pyfloat" where
  "demo_polarity post =
     (case post of
        Str s \<Rightarrow>
          if s = ascii ''I love this!'' then Inr float_0_6
          else if s = ascii ''I hate you'' then Inr (- 1 / 2)
          else if s = ascii ''fine'' then Inr float_0_2
          else Inr 0
      | _ \<Rightarrow> Inl LibraryError)"

definition demo_model :: classifier where
  "demo_model post =
     (if post = Str (ascii ''I hate you'')
      then Inr [[\<lparr>label = ascii ''insult'', score = 7 / 10\<rparr>,
                 \<lparr>label = ascii ''toxic'', score = 9 / 10\<rparr>]]
      else if post = Str (ascii ''fine'')
      then Inr [[\<lparr>label = ascii ''toxic'', score = 1 / 2\<rparr>]]
      else if post = Str (ascii ''odd'')
      then Inr [[\<lparr>label = ascii ''insult'', score = 1 / 10\<rparr>]]
      else Inr [[\<lparr>label = ascii ''toxic'', score = 1 / 80\<rparr>,
                 \<lparr>label = ascii ''insult'', score = 1 / 100\<rparr>]])"

definition demo_table :: table where
  "demo_table =
     \<lparr>columns = history_columns,
      rows = [[Str (ascii ''old post''), Str Neutral, Str (safe_text (1 / 80))]]\<rparr>"

definition demo_upload :: table where
  "demo_upload = \<lparr>columns = [ascii ''Post''], rows = [[Str (ascii ''hello'')]]\<rparr>"

definition demo_lib :: lib where
  "demo_lib =
     \<lparr>pipeline = Inr demo_model,
      polarity = demo_polarity,
      read_csv = (\<lambda>content. if content = ''history'' then Inr demo_table
                    else if content = ''upload'' then Inr demo_upload
                    else Inl LibraryError),
      to_csv = (\<lambda>t. if t = demo_table then ''history'' else ''other'')\<rparr>"

section \<open>Basic facts\<close>

declare digits.simps [simp del]

lemma and_then_simps [simp]:
  "and_then (Inl e) f = Inl e"
  "and_then (Inr x) f = f x"
  by (simp_all add: and_then_def)

lemma and_then_Inr:
  "and_then r f = Inr y \<longleftrightarrow> (\<exists>x. r = Inr x \<and> f x = Inr y)"
  by (cases r) simp_all

lemma float_0_2_pos: "0 < float_0_2"
  by (simp add: float_0_2_def)

lemma sentiment_branch_label:
  assumes "sentiment_branch p sc = Inr (lab, sc')"
  shows "(float_0_2 < p \<longrightarrow> lab = Positive)
       \<and> (p < - float_0_2 \<longrightarrow> lab = Negative)
       \<and> (- float_0_2 \<le> p \<and> p \<le> float_0_2 \<longrightarrow> lab = Neutral)"
  using assms float_0_2_pos
  by (auto simp: sentiment_branch_def and_then_Inr split: if_splits)

lemma analyze_post_Inr:
  assumes "analyze_post L tm a post = Inr a'"
  obtains p lab sc s tox tc where
    "polarity L post = Inr p"
    "sentiment_branch p (sentiment_counts a) = Inr (lab, sc)"
    "toxic_score_of tm post = Inr s"
    "toxicity_branch s (toxic_counts a) = Inr (tox, tc)"
    "a' = \<lparr>results = results a @ [(post, lab, tox)], sentiment_counts = sc, toxic_counts = tc\<rparr>"
  using assms unfolding analyze_post_def
  by (auto simp: and_then_Inr)

lemmas demo_defs =
  demo_lib_def demo_model_def demo_polarity_def demo_table_def demo_upload_def acc0_def
  analyze_post_def sentiment_branch_def toxicity_branch_def toxic_score_of_def item0_def
  float_0_2_def float_0_5_def float_0_6_def Positive_def Negative_def Neutral_def Toxic_def Safe_def
  ascii_def

lemma demo_fine:
  "analyze_post demo_lib demo_model acc0 (Str (ascii ''fine''))
   = Inr \<lparr>results = [(Str (ascii ''fine''), Neutral, safe_text (1 / 2))],
          sentiment_counts = [(Positive, 0), (Negative, 0), (Neutral, 1)],
          toxic_counts = [(Toxic, 0), (Safe, 1)]\<rparr>"
  by (simp add: demo_defs)

lemma digits_nonempty: "digits n \<noteq> []"
  by (subst digits.simps) simp

lemma digits_all_digit: "list_all is_digit (digits n)"
proof (induction n rule: digits.induct)
  case (1 n)
  show ?case
  proof (cases "n < 10")
    case True
    then show ?thesis by (subst digits.simps) (simp add: is_digit_def)
  next
    case False
    have "n mod 10 < 10" by simp
    then have "is_digit (48 + n mod 10)" unfolding is_digit_def by linarith
    with False 1 show ?thesis by (subst digits.simps) simp
  qed
qed

lemma dec_val_snoc: "dec_val (xs @ [c]) = 10 * dec_val xs + (c - 48)"
  by (simp add: dec_val_def)

lemma dec_val_digits: "dec_val (digits n) = n"
proof (induction n rule: digits.induct)
  case (1 n)
  show ?case
  proof (cases "n < 10")
    case True
    then show ?thesis by (subst digits.simps) (simp add: dec_val_def)
  next
    case False
    with 1 have "dec_val (digits (n div 10)) = n div 10" by simp
    with False show ?thesis by (subst digits.simps) (simp add: dec_val_snoc)
  qed
qed

lemma round_half_even_cases:
  "round_half_even q = \<lfloor>q\<rfloor> \<and> q - of_int \<lfloor>q\<rfloor> \<le> 1 / 2
   \<or> round_half_even q = \<lfloor>q\<rfloor> + 1 \<and> 1 / 2 \<le> q - of_int \<lfloor>q\<rfloor>"
  unfolding round_half_even_def Let_def by (simp only: split: if_splits) linarith

lemma round_half_even_bound: "\<bar>q - of_int (round_half_even q)\<bar> \<le> 1 / 2"
proof -
  have fl: "of_int \<lfloor>q\<rfloor> \<le> q" "q < of_int \<lfloor>q\<rfloor> + 1" by linarith+
  from round_half_even_cases [of q] show ?thesis
  proof
    assume "round_half_even q = \<lfloor>q\<rfloor> \<and> q - of_int \<lfloor>q\<rfloor> \<le> 1 / 2"
    with fl show ?thesis by linarith
  next
    assume a: "round_half_even q = \<lfloor>q\<rfloor> + 1 \<and> 1 / 2 \<le> q - of_int \<lfloor>q\<rfloor>"
    then have "of_int (round_half_even q) = (of_int \<lfloor>q\<rfloor> :: rat) + 1" by simp
    with a fl show ?thesis by linarith
  qed
qed

lemma round_half_even_nonneg: "0 \<le> q \<Longrightarrow> 0 \<le> round_half_even q"
proof -
  assume "0 \<le> q"
  then have "0 \<le> \<lfloor>q\<rfloor>" by simp
  with round_half_even_cases [of q] show ?thesis by linarith
qed

lemma hundredths_nat: "100 * (n div 100) + 10 * (n mod 100 div 10) + n mod 10 = (n::nat)"
proof -
  have a: "100 * (n div 100) + n mod 100 = n" by simp
  have b: "10 * (n mod 100 div 10) + n mod 100 mod 10 = n mod 100" by simp
  have c: "n mod 100 mod 10 = n mod 10" by (simp add: mod_mod_cancel)
  from a b c show ?thesis by linarith
qed

lemma hundredths_split:
  "(of_nat (n div 100) :: rat) + of_nat (n mod 100 div 10) / 10 + of_nat (n mod 10) / 100
     = of_nat n / 100"
proof -
  have "(of_nat (100 * (n div 100) + 10 * (n mod 100 div 10) + n mod 10) :: rat) = of_nat n"
    by (simp only: hundredths_nat)
  then have "100 * of_nat (n div 100) + 10 * of_nat (n mod 100 div 10) + of_nat (n mod 10)
      = (of_nat n :: rat)"
    by (simp only: of_nat_add of_nat_mult of_nat_numeral)
  then have "(of_nat n :: rat) / 100
     = (100 * of_nat (n div 100) + 10 * of_nat (n mod 100 div 10) + of_nat (n mod 10)) / 100"
    by (rule arg_cong [OF sym])
  then show ?thesis by (simp add: add_divide_distrib)
qed

text \<open>The format of the source prints what the specification calls a rendering.\<close>

lemma fmt_2f_rendered: "rendered_2dp x (fmt_2f x)"
proof -
  define n where "n = nat (round_half_even (\<bar>x\<bar> * 100))"
  define d1 where "d1 = 48 + n mod 100 div 10"
  define d2 where "d2 = 48 + n mod 10"
  have fmt: "fmt_2f x = (if x < 0 then ascii ''-'' else []) @ digits (n div 100) @ [46, d1, d2]"
    by (simp add: fmt_2f_def Let_def n_def d1_def d2_def)
  have "n mod 100 < 10 * 10" by simp
  then have "n mod 100 div 10 < 10" by (rule less_mult_imp_div_less)
  moreover have "n mod 10 < 10" by simp
  ultimately have dig: "is_digit d1" "is_digit d2"
    unfolding d1_def d2_def is_digit_def by linarith+
  have "0 \<le> round_half_even (\<bar>x\<bar> * 100)" by (rule round_half_even_nonneg) simp
  then have n: "(of_nat n :: rat) = of_int (round_half_even (\<bar>x\<bar> * 100))"
    by (simp add: n_def)
  have "\<bar>\<bar>x\<bar> * 100 - of_nat n\<bar> \<le> 1 / 2"
    unfolding n by (rule round_half_even_bound)
  then have close: "\<bar>\<bar>x\<bar> - of_nat n / 100\<bar> \<le> 1 / 200"
    by linarith
  have val: "(of_nat (dec_val (digits (n div 100))) :: rat) + of_nat (d1 - 48) / 10
      + of_nat (d2 - 48) / 100 = of_nat n / 100"
    by (simp add: dec_val_digits d1_def d2_def hundredths_split)
  have "fmt_2f x = (if x < 0 then ascii ''-'' else []) @ digits (n div 100) @ [46, d1, d2]
        \<and> digits (n div 100) \<noteq> [] \<and> list_all is_digit (digits (n div 100))
        \<and> is_digit d1 \<and> is_digit d2
        \<and> \<bar>\<bar>x\<bar> - (of_nat (dec_val (digits (n div 100))) + of_nat (d1 - 48) / 10
              + of_nat (d2 - 48) / 100)\<bar> \<le> 1 / 200"
    using fmt dig close digits_nonempty digits_all_digit by (simp add: val)
  then show ?thesis
    unfolding rendered_2dp_def by blast
qed

lemma toxic_text_neq_safe_text: "toxic_text s \<noteq> safe_text s'"
  by (simp add: toxic_text_def safe_text_def)

lemma toxicity_branch_text:
  assumes "toxicity_branch s tc = Inr (tox, tc')"
  shows "tox = (if float_0_5 < s then toxic_text s else safe_text s)"
  using assms by (auto simp: toxicity_branch_def and_then_Inr split: if_splits)

lemma fmt_2f_demo: "fmt_2f (9 / 10) = ascii ''0.90''" "fmt_2f (1 / 2) = ascii ''0.50''"
  "fmt_2f (1 / 80) = ascii ''0.01''" "fmt_2f (1 / 8) = ascii ''0.12''"
  "fmt_2f (3 / 8) = ascii ''0.38''" "fmt_2f (- 1 / 1000) = ascii ''-0.00''"
  by code_simp+

lemma demo_hate:
  "analyze_post demo_lib demo_model acc0 (Str (ascii ''I hate you''))
   = Inr \<lparr>results = [(Str (ascii ''I hate you''), Negative, toxic_text (9 / 10))],
          sentiment_counts = [(Positive, 0), (Negative, 1), (Neutral, 0)],
          toxic_counts = [(Toxic, 1), (Safe, 0)]\<rparr>"
  by (simp add: demo_defs)

lemma cell_at_own_columns:
  assumes "distinct cols" and "length r = length cols"
  shows "map (cell_at cols r) cols = r"
proof (rule nth_equalityI)
  show "length (map (cell_at cols r) cols) = length r" using assms by simp
next
  fix i assume "i < length (map (cell_at cols r) cols)"
  then have i: "i < length cols" by simp
  with assms have "map_of (zip cols r) (cols ! i) = Some (r ! i)"
    by (simp add: map_of_zip_nth)
  with i show "map (cell_at cols r) cols ! i = r ! i"
    by (simp add: cell_at_def)
qed

lemma history_columns_distinct: "distinct history_columns"
  by (simp add: history_columns_def ascii_def)

lemma history_columns_length: "length history_columns = 3"
  by (simp add: history_columns_def)

lemma reindex_history_table:
  assumes "history_table t"
  shows "reindex history_columns t = rows t"
proof -
  from assms have cols: "columns t = history_columns"
    and len: "list_all (\<lambda>r. length r = 3) (rows t)"
    by (simp_all add: history_table_def)
  have "map (\<lambda>r. map (cell_at history_columns r) history_columns) (rows t) = map (\<lambda>r. r) (rows t)"
  proof (rule map_cong [OF refl])
    fix r assume "r \<in> set (rows t)"
    with len have "length r = length history_columns"
      by (simp add: list_all_iff history_columns_length)
    with history_columns_distinct show "map (cell_at history_columns r) history_columns = r"
      by (rule cell_at_own_columns)
  qed
  then show ?thesis by (simp add: reindex_def cols)
qed

lemma pd_concat_history_tables:
  assumes "history_table a" and "history_table b"
  shows "pd_concat a b = \<lparr>columns = history_columns, rows = rows a @ rows b\<rparr>"
proof -
  from assms have cols: "columns a = history_columns" "columns b = history_columns"
    by (simp_all add: history_table_def)
  have "filter (\<lambda>c. c \<notin> set history_columns) history_columns = []"
    by (simp add: filter_empty_conv)
  then show ?thesis
    using reindex_history_table [OF assms(1)] reindex_history_table [OF assms(2)]
    by (simp add: pd_concat_def Let_def cols)
qed

lemma results_df_history_table: "history_table (results_df a)"
  by (simp add: history_table_def results_df_def list_all_iff split_beta)

lemma demo_table_history: "history_table demo_table"
  by (simp add: history_table_def demo_table_def)

lemma load_history_demo: "load_history demo_lib (Some ''history'') = Inr demo_table"
  by (simp add: load_history_def demo_lib_def)

lemma succeeds_simps [simp]:
  "succeeds (Inr x) = True"
  "succeeds (Inl e) = False"
  by (simp_all add: succeeds_def)

lemma succeeds_iff: "succeeds r \<longleftrightarrow> (\<exists>x. r = Inr x)"
  by (cases r) simp_all

lemma labels_distinct:
  "Positive \<noteq> Negative" "Positive \<noteq> Neutral" "Negative \<noteq> Neutral"
  "Negative \<noteq> Positive" "Neutral \<noteq> Positive" "Neutral \<noteq> Negative"
  "Toxic \<noteq> Safe" "Safe \<noteq> Toxic"
  by (simp_all add: Positive_def Negative_def Neutral_def Toxic_def Safe_def ascii_def)

text \<open>On the dictionaries of the script the increments never raise KeyError.\<close>

lemma sentiment_branch_counts:
  "sentiment_branch q [(Positive, p), (Negative, n), (Neutral, u)] =
     (if float_0_2 < q then Inr (Positive, [(Positive, p + 1), (Negative, n), (Neutral, u)])
      else if q < - float_0_2 then Inr (Negative, [(Positive, p), (Negative, n + 1), (Neutral, u)])
      else Inr (Neutral, [(Positive, p), (Negative, n), (Neutral, u + 1)]))"
  by (simp add: sentiment_branch_def labels_distinct)

lemma toxicity_branch_counts:
  "toxicity_branch x [(Toxic, t), (Safe, s)] =
     (if float_0_5 < x then Inr (toxic_text x, [(Toxic, t + 1), (Safe, s)])
      else Inr (safe_text x, [(Toxic, t), (Safe, s + 1)]))"
  by (simp add: toxicity_branch_def labels_distinct)

lemma analyze_post_counts:
  assumes "analyze_post L tm a post = Inr a'"
    and "sentiment_counts a = [(Positive, p), (Negative, n), (Neutral, u)]"
    and "toxic_counts a = [(Toxic, t), (Safe, s)]"
  shows "\<exists>p' n' u' t' s'.
           sentiment_counts a' = [(Positive, p'), (Negative, n'), (Neutral, u')]
           \<and> toxic_counts a' = [(Toxic, t'), (Safe, s')]
           \<and> ((p', n', u') = (p + 1, n, u) \<or> (p', n', u') = (p, n + 1, u)
                \<or> (p', n', u') = (p, n, u + 1))
           \<and> ((t', s') = (t + 1, s) \<or> (t', s') = (t, s + 1))
           \<and> length (results a') = length (results a) + 1"
proof -
  from assms(1) obtain q lab sc x tox tc where
    sb: "sentiment_branch q (sentiment_counts a) = Inr (lab, sc)"
    and tb: "toxicity_branch x (toxic_counts a) = Inr (tox, tc)"
    and a': "a' = \<lparr>results = results a @ [(post, lab, tox)], sentiment_counts = sc,
               toxic_counts = tc\<rparr>"
    by (rule analyze_post_Inr)
  from sb have "sc = [(Positive, p + 1), (Negative, n), (Neutral, u)]
      \<or> sc = [(Positive, p), (Negative, n + 1), (Neutral, u)]
      \<or> sc = [(Positive, p), (Negative, n), (Neutral, u + 1)]"
    unfolding assms(2) sentiment_branch_counts by (auto split: if_splits)
  moreover from tb have "tc = [(Toxic, t + 1), (Safe, s)] \<or> tc = [(Toxic, t), (Safe, s + 1)]"
    unfolding assms(3) toxicity_branch_counts by (auto split: if_splits)
  ultimately show ?thesis unfolding a' by auto
qed

lemma analyze_posts_counts:
  assumes "analyze_posts L tm posts a = Inr a'"
    and "sentiment_counts a = [(Positive, p), (Negative, n), (Neutral, u)]"
    and "toxic_counts a = [(Toxic, t), (Safe, s)]"
  shows "\<exists>p' n' u' t' s'.
           sentiment_counts a' = [(Positive, p'), (Negative, n'), (Neutral, u')]
           \<and> toxic_counts a' = [(Toxic, t'), (Safe, s')]
           \<and> p' + n' + u' = p + n + u + int (length posts)
           \<and> t' + s' = t + s + int (length posts)
           \<and> length (results a') = length (results a) + length posts"
  using assms
proof (induction posts arbitrary: a p n u t s)
  case Nil
  then show ?case by simp
next
  case (Cons post posts)
  from Cons.prems(1) obtain a1 where
    step: "analyze_post L tm a post = Inr a1"
    and rest: "analyze_posts L tm posts a1 = Inr a'"
    by (auto split: sum.splits)
  from analyze_post_counts [OF step Cons.prems(2,3)] obtain p1 n1 u1 t1 s1 where
    sc1: "sentiment_counts a1 = [(Positive, p1), (Negative, n1), (Neutral, u1)]"
    and tc1: "toxic_counts a1 = [(Toxic, t1), (Safe, s1)]"
    and sum1: "p1 + n1 + u1 = p + n + u + 1"
    and sum2: "t1 + s1 = t + s + 1"
    and len1: "length (results a1) = length (results a) + 1"
    by auto
  from Cons.IH [OF rest sc1 tc1] obtain p' n' u' t' s' where
    "sentiment_counts a' = [(Positive, p'), (Negative, n'), (Neutral, u')]"
    "toxic_counts a' = [(Toxic, t'), (Safe, s')]"
    "p' + n' + u' = p1 + n1 + u1 + int (length posts)"
    "t' + s' = t1 + s1 + int (length posts)"
    "length (results a') = length (results a1) + length posts"
    by blast
  with sum1 sum2 len1 show ?case by simp
qed

lemma analyze_posts_order:
  assumes "analyze_posts L tm posts a = Inr a'"
  shows "map fst (results a') = map fst (results a) @ posts"
  using assms
proof (induction posts arbitrary: a)
  case Nil
  then show ?case by simp
next
  case (Cons post posts)
  from Cons.prems obtain a1 where
    step: "analyze_post L tm a post = Inr a1"
    and rest: "analyze_posts L tm posts a1 = Inr a'"
    by (auto split: sum.splits)
  from step have "map fst (results a1) = map fst (results a) @ [post]"
    by (rule analyze_post_Inr) simp
  with Cons.IH [OF rest] show ?case by simp
qed

lemma analyze_post_succeeds:
  assumes "classifiable L tm post"
    and "sentiment_counts a = [(Positive, p), (Negative, n), (Neutral, u)]"
    and "toxic_counts a = [(Toxic, t), (Safe, s)]"
  shows "succeeds (analyze_post L tm a post)"
proof -
  from assms(1) obtain q x where "polarity L post = Inr q" "toxic_score_of tm post = Inr x"
    by (auto simp: classifiable_def succeeds_iff)
  then show ?thesis
    by (simp add: analyze_post_def assms(2,3) sentiment_branch_counts toxicity_branch_counts)
qed

lemma analyze_posts_succeeds:
  assumes "list_all (classifiable L tm) posts"
    and "sentiment_counts a = [(Positive, p), (Negative, n), (Neutral, u)]"
    and "toxic_counts a = [(Toxic, t), (Safe, s)]"
  shows "succeeds (analyze_posts L tm posts a)"
  using assms
proof (induction posts arbitrary: a p n u t s)
  case Nil
  then show ?case by simp
next
  case (Cons post posts)
  from Cons.prems have c: "classifiable L tm post" and cs: "list_all (classifiable L tm) posts"
    by simp_all
  from analyze_post_succeeds [OF c Cons.prems(2,3)] obtain a1 where
    step: "analyze_post L tm a post = Inr a1"
    by (auto simp: succeeds_iff)
  from analyze_post_counts [OF step Cons.prems(2,3)] obtain p1 n1 u1 t1 s1 where
    "sentiment_counts a1 = [(Positive, p1), (Negative, n1), (Neutral, u1)]"
    "toxic_counts a1 = [(Toxic, t1), (Safe, s1)]"
    by blast
  from Cons.IH [OF cs this] step show ?case by simp
qed

lemma acc0_counts:
  "sentiment_counts acc0 = [(Positive, 0), (Negative, 0), (Neutral, 0)]"
  "toxic_counts acc0 = [(Toxic, 0), (Safe, 0)]"
  "results acc0 = []"
  by (simp_all add: acc0_def)

lemma demo_run:
  "analyze_posts demo_lib demo_model
     [Str (ascii ''I love this!''), Str (ascii ''I hate you''), Str (ascii ''It is raining'')] acc0
   = Inr \<lparr>results =
            [(Str (ascii ''I love this!''), Positive, safe_text (1 / 80)),
             (Str (ascii ''I hate you''), Negative, toxic_text (9 / 10)),
             (Str (ascii ''It is raining''), Neutral, safe_text (1 / 80))],
          sentiment_counts = [(Positive, 1), (Negative, 1), (Neutral, 1)],
          toxic_counts = [(Toxic, 1), (Safe, 2)]\<rparr>"
  by (simp add: demo_defs)

lemma demo_classifiable:
  "list_all (classifiable demo_lib demo_model)
     [Str (ascii ''I love this!''), Str (ascii ''I hate you''), Str (ascii ''It is raining'')]"
  by (simp add: classifiable_def demo_defs)

lemma pol_demo:
  "polarity demo_lib (Str (ascii ''I love this!'')) = Inr float_0_6"
  "polarity demo_lib (Str (ascii ''I hate you'')) = Inr (- float_0_5)"
  "polarity demo_lib (Str (ascii ''It is raining'')) = Inr 0"
  by (simp_all add: demo_lib_def demo_polarity_def float_0_5_def ascii_def)

lemma tox_demo:
  "succeeds (toxic_score_of demo_model (Str (ascii ''I love this!'')))"
  "succeeds (toxic_score_of demo_model (Str (ascii ''I hate you'')))"
  "succeeds (toxic_score_of demo_model (Str (ascii ''It is raining'')))"
  using demo_classifiable by (simp_all add: classifiable_def)

lemma not_succeeds_iff: "\<not> succeeds r \<longleftrightarrow> (\<exists>e. r = Inl e)"
  by (cases r) simp_all

lemma analyze_post_Inr_classifiable:
  assumes "analyze_post L tm a post = Inr a'"
  shows "classifiable L tm post"
  using assms by (rule analyze_post_Inr) (simp add: classifiable_def)

lemma analyze_posts_Inr_classifiable:
  assumes "analyze_posts L tm posts a = Inr a'"
  shows "list_all (classifiable L tm) posts"
  using assms
proof (induction posts arbitrary: a)
  case Nil
  then show ?case by simp
next
  case (Cons post posts)
  from Cons.prems obtain a1 where
    step: "analyze_post L tm a post = Inr a1"
    and rest: "analyze_posts L tm posts a1 = Inr a'"
    by (auto split: sum.splits)
  from analyze_post_Inr_classifiable [OF step] Cons.IH [OF rest] show ?case by simp
qed

lemma analyze_posts_fails:
  assumes "post \<in> set posts" and "\<not> classifiable L tm post"
  shows "\<exists>e. analyze_posts L tm posts a = Inl e"
proof (cases "analyze_posts L tm posts a")
  case (Inl e)
  then show ?thesis by blast
next
  case (Inr a')
  then have "list_all (classifiable L tm) posts" by (rule analyze_posts_Inr_classifiable)
  with assms show ?thesis by (simp add: list_all_iff)
qed

lemma run_analysis_failure:
  assumes "analyze_posts L tm posts acc0 = Inl e"
  shows "run_analysis L tm posts f = (Inl e, f, [])"
  using assms by (simp add: run_analysis_def)

lemma run_analysis_writes_only_after_success:
  assumes "fst (snd (run_analysis L tm posts f)) \<noteq> f"
  shows "succeeds (analyze_posts L tm posts acc0)"
proof (cases "analyze_posts L tm posts acc0")
  case (Inl e)
  with assms show ?thesis by (simp add: run_analysis_failure)
next
  case (Inr a)
  then show ?thesis by simp
qed

lemma toxic_label_absent:
  assumes "tm post = Inr (predictions # rest)"
    and "list_all (\<lambda>p. label p \<noteq> ascii ''toxic'') predictions"
  shows "toxic_score_of tm post = Inl IndexError"
proof -
  from assms(2) have "filter (\<lambda>p. label p = ascii ''toxic'') predictions = []"
    by (simp add: filter_empty_conv list_all_iff)
  with assms(1) show ?thesis by (simp add: toxic_score_of_def item0_def)
qed

lemma toxic_backend_raises:
  assumes "tm post = Inl e"
  shows "toxic_score_of tm post = Inl e"
  using assms by (simp add: toxic_score_of_def)

lemma not_classifiable_toxic:
  assumes "toxic_score_of tm post = Inl e"
  shows "\<not> classifiable L tm post"
  using assms by (simp add: classifiable_def)

lemma analyzer_tab_failure:
  assumes "choose_posts L action = Inr (posts, shown)"
    and "post \<in> set posts" and "\<not> classifiable L tm post"
  shows "\<exists>e. analyzer_tab L tm action f = (Inl e, f, shown)"
proof -
  from analyze_posts_fails [OF assms(2,3)] obtain e where
    "analyze_posts L tm posts acc0 = Inl e" by blast
  then have "run_analysis L tm posts f = (Inl e, f, [])" by (rule run_analysis_failure)
  moreover from assms(2) have "posts \<noteq> []" by auto
  ultimately have "analyzer_tab L tm action f = (Inl e, f, shown)"
    using assms(1) by (simp add: analyzer_tab_def)
  then show ?thesis by blast
qed

lemma app_model_unavailable:
  assumes "load_model L = Inl e"
  shows "app L action f = (Inl e, f, [])"
  using assms by (simp add: app_def)

lemma app_failure:
  assumes "load_model L = Inr tm"
    and "choose_posts L action = Inr (posts, shown)"
    and "post \<in> set posts" and "\<not> classifiable L tm post"
  shows "\<exists>e. app L action f = (Inl e, f, shown)"
proof -
  from analyzer_tab_failure [OF assms(2,3,4)] obtain e where
    "analyzer_tab L tm action f = (Inl e, f, shown)" by blast
  with assms(1) have "app L action f = (Inl e, f, shown)" by (simp add: app_def)
  then show ?thesis by blast
qed

lemma history_tab_keeps_file:
  "fst (snd (case history_tab L f' of
               Inl e \<Rightarrow> (Inl e, f', shown)
             | Inr shown' \<Rightarrow> (Inr a, f', shown @ shown'))) = f'"
  by (cases "history_tab L f'") simp_all

lemma csv_without_post_column:
  assumes "read_csv L content = Inr df"
    and "ascii ''post'' \<notin> set (columns df)"
  shows "analyzer_tab L tm (Upload_CSV (Some content)) f
         = (Inr None, f, [Error must_contain_post])"
  using assms by (simp add: analyzer_tab_def choose_posts_def csv_posts_def)

lemma app_csv_without_post_column:
  assumes "read_csv L content = Inr df"
    and "ascii ''post'' \<notin> set (columns df)"
  shows "fst (snd (app L (Upload_CSV (Some content)) f)) = f"
proof (cases "load_model L")
  case (Inl e)
  then show ?thesis by (simp add: app_def)
next
  case (Inr tm)
  have "analyzer_tab L tm (Upload_CSV (Some content)) f
      = (Inr None, f, [Error must_contain_post])"
    using assms by (rule csv_without_post_column)
  with Inr show ?thesis by (simp add: app_def history_tab_keeps_file)
qed

lemma text_posts_demo_odd:
  "choose_posts demo_lib (Enter_Text (ascii ''I love this!'' @ [10] @ ascii ''odd'') True)
   = Inr ([Str (ascii ''I love this!''), Str (ascii ''odd'')], [])"
  by (simp add: choose_posts_def text_posts_def py_strip_def py_isspace_def ascii_def)

lemma demo_odd_not_classifiable:
  "demo_model (Str (ascii ''odd'')) = Inr ([\<lparr>label = ascii ''insult'', score = 1 / 10\<rparr>] # [])"
  "list_all (\<lambda>p. label p \<noteq> ascii ''toxic'') [\<lparr>label = ascii ''insult'', score = 1 / 10\<rparr>]"
  "\<not> classifiable demo_lib demo_model (Str (ascii ''odd''))"
  by (simp_all add: classifiable_def demo_defs)

lemma demo_upload_columns:
  "read_csv demo_lib ''upload'' = Inr demo_upload"
  "ascii ''post'' \<notin> set (columns demo_upload)"
  by (simp_all add: demo_lib_def demo_upload_def ascii_def)

lemma analyzer_tab_success:
  assumes "choose_posts L action = Inr (posts, shown)"
    and "posts \<noteq> []"
    and "analyze_posts L tm posts acc0 = Inr a"
    and "load_history L f = Inr h"
  shows "analyzer_tab L tm action f
         = (Inr (Some a), Some (to_csv L (pd_concat h (results_df a))),
            shown @ [Subheader analysis_results, Dataframe (results_df a),
                     Subheader sentiment_distribution, Pie_chart (sentiment_counts a),
                     Subheader toxic_vs_safe, Bar_chart (toxic_counts a)])"
  using assms by (simp add: analyzer_tab_def run_analysis_def save_history_def Let_def)

lemma empty_history_table: "history_table \<lparr>columns = history_columns, rows = []\<rparr>"
  by (simp add: history_table_def)

lemma text_posts_blank_line:
  "text_posts (ascii ''a'' @ [10, 10] @ ascii ''b'') True
   = ([Str (ascii ''a''), Str [], Str (ascii ''b'')], [])"
  by (simp add: text_posts_def py_strip_def py_isspace_def ascii_def)

lemma demo_blank_run:
  "analyze_posts demo_lib demo_model [Str (ascii ''a''), Str [], Str (ascii ''b'')] acc0
   = Inr \<lparr>results =
            [(Str (ascii ''a''), Neutral, safe_text (1 / 80)),
             (Str [], Neutral, safe_text (1 / 80)),
             (Str (ascii ''b''), Neutral, safe_text (1 / 80))],
          sentiment_counts = [(Positive, 0), (Negative, 0), (Neutral, 3)],
          toxic_counts = [(Toxic, 0), (Safe, 3)]\<rparr>"
  by (simp add: demo_defs)

lemma py_split_nonempty: "py_split sep s \<noteq> []"
  by (induction s) (auto split: list.splits)

lemma py_split_concat: "concat (map (\<lambda>l. l @ [sep]) (py_split sep s)) = s @ [sep]"
proof (induction s)
  case Nil
  show ?case by simp
next
  case (Cons c cs)
  show ?case
  proof (cases "c = sep")
    case True
    with Cons show ?thesis by simp
  next
    case False
    obtain l ls where split: "py_split sep cs = l # ls"
      using py_split_nonempty [of sep cs] by (cases "py_split sep cs") auto
    with Cons False show ?thesis by simp
  qed
qed

lemma py_split_no_sep: "list_all (\<lambda>l. sep \<notin> set l) (py_split sep s)"
proof (induction s)
  case Nil
  show ?case by simp
next
  case (Cons c cs)
  obtain l ls where split: "py_split sep cs = l # ls"
    using py_split_nonempty [of sep cs] by (cases "py_split sep cs") auto
  with Cons show ?case by auto
qed

lemma py_split_hd:
  assumes "s \<noteq> []" and "hd s \<noteq> sep"
  shows "hd (py_split sep s) \<noteq> [] \<and> hd (hd (py_split sep s)) = hd s"
proof -
  from assms obtain c cs where s: "s = c # cs" and c: "c \<noteq> sep" by (cases s) auto
  obtain l ls where "py_split sep cs = l # ls"
    using py_split_nonempty [of sep cs] by (cases "py_split sep cs") auto
  with s c show ?thesis by simp
qed

lemma py_split_last:
  assumes "s \<noteq> []" and "last s \<noteq> sep"
  shows "last (py_split sep s) \<noteq> [] \<and> last (last (py_split sep s)) = last s"
  using assms
proof (induction s)
  case Nil
  then show ?case by simp
next
  case (Cons c cs)
  obtain l ls where split: "py_split sep cs = l # ls"
    using py_split_nonempty [of sep cs] by (cases "py_split sep cs") auto
  show ?case
  proof (cases "cs = []")
    case True
    with Cons.prems show ?thesis by simp
  next
    case False
    with Cons.prems have "last cs \<noteq> sep" by simp
    with Cons.IH False have ih: "last (py_split sep cs) \<noteq> []"
      "last (last (py_split sep cs)) = last cs" by simp_all
    show ?thesis
    proof (cases "c = sep")
      case True
      with ih False split show ?thesis by simp
    next
      case c: False
      show ?thesis
      proof (cases "ls = []")
        case True
        with ih split have "l \<noteq> []" "last l = last cs" by simp_all
        with c split True False show ?thesis by simp
      next
        case ls: False
        with ih split have "last ls \<noteq> []" "last (last ls) = last cs" by simp_all
        with c split ls False show ?thesis by simp
      qed
    qed
  qed
qed

lemma last_dropWhile_nonempty:
  assumes "dropWhile P xs \<noteq> []"
  shows "last (dropWhile P xs) = last xs"
  using assms by (induction xs) (auto split: if_splits)

lemma py_strip_ends:
  assumes "py_strip s \<noteq> []"
  shows "\<not> py_isspace (hd (py_strip s)) \<and> \<not> py_isspace (last (py_strip s))"
proof -
  define t where "t = dropWhile py_isspace s"
  define u where "u = dropWhile py_isspace (rev t)"
  have strip: "py_strip s = rev u" by (simp add: py_strip_def t_def u_def)
  with assms have u: "u \<noteq> []" by simp
  then have t: "t \<noteq> []" by (auto simp: u_def)
  from u have "\<not> py_isspace (hd u)" unfolding u_def by (rule hd_dropWhile)
  then have last: "\<not> py_isspace (last (rev u))" using u by (simp add: last_rev)
  from u have "last u = last (rev t)" unfolding u_def by (rule last_dropWhile_nonempty)
  with t have "last u = hd t" by (simp add: last_rev)
  moreover from t have "\<not> py_isspace (hd t)" unfolding t_def by (rule hd_dropWhile)
  ultimately have "\<not> py_isspace (hd (rev u))" using u by (simp add: hd_rev)
  with last strip show ?thesis by simp
qed

lemma py_isspace_line_feed: "py_isspace 10"
  by (simp add: py_isspace_def)

section \<open>The claims\<close>

text \<open>
  C1. A post whose polarity is \<open>p\<close> is recorded with the label Positive when
  \<open>p > 0.2\<close>, Negative when \<open>p < -0.2\<close> and Neutral otherwise; the comparisons are
  strict, so the boundary values \<open>0.2\<close> and \<open>-0.2\<close> give Neutral.
\<close>

theorem sentiment_thresholds:
  assumes "polarity L post = Inr p"
    and "analyze_post L toxic_model a post = Inr a'"
  shows "\<exists>lab tox. results a' = results a @ [(post, lab, tox)]
           \<and> (float_0_2 < p \<longrightarrow> lab = Positive)
           \<and> (p < - float_0_2 \<longrightarrow> lab = Negative)
           \<and> (- float_0_2 \<le> p \<and> p \<le> float_0_2 \<longrightarrow> lab = Neutral)
           \<and> (p = float_0_2 \<or> p = - float_0_2 \<longrightarrow> lab = Neutral)"
proof -
  from assms(2) obtain p' lab sc tox tc where
    p': "polarity L post = Inr p'"
    and sb: "sentiment_branch p' (sentiment_counts a) = Inr (lab, sc)"
    and a': "a' = \<lparr>results = results a @ [(post, lab, tox)], sentiment_counts = sc,
               toxic_counts = tc\<rparr>"
    by (rule analyze_post_Inr)
  from p' assms(1) have "p' = p" by simp
  with sb have lab: "(float_0_2 < p \<longrightarrow> lab = Positive)
       \<and> (p < - float_0_2 \<longrightarrow> lab = Negative)
       \<and> (- float_0_2 \<le> p \<and> p \<le> float_0_2 \<longrightarrow> lab = Neutral)"
    using sentiment_branch_label by blast
  from lab float_0_2_pos have "p = float_0_2 \<or> p = - float_0_2 \<longrightarrow> lab = Neutral" by auto
  with lab a' show ?thesis by auto
qed

theorem sentiment_thresholds_witness:
  "polarity demo_lib (Str (ascii ''fine'')) = Inr float_0_2
   \<and> succeeds (analyze_post demo_lib demo_model acc0 (Str (ascii ''fine'')))
   \<and> (\<exists>a' tox. analyze_post demo_lib demo_model acc0 (Str (ascii ''fine'')) = Inr a'
        \<and> results a' = [(Str (ascii ''fine''), Neutral, tox)])"
proof -
  have h1: "polarity demo_lib (Str (ascii ''fine'')) = Inr float_0_2"
    by (simp add: demo_lib_def demo_polarity_def ascii_def)
  note h2 = demo_fine
  from sentiment_thresholds [OF h1 h2] h1 h2 show ?thesis
    by (auto simp: succeeds_def acc0_def)
qed

text \<open>
  C2. A post whose toxicity score is \<open>s\<close> is labelled toxic exactly when \<open>s > 0.5\<close> and
  safe when \<open>s \<le> 0.5\<close>; either label is the fixed text around the score rendered to two
  decimal places.
\<close>

theorem toxicity_threshold:
  assumes "toxic_score_of toxic_model post = Inr s"
    and "analyze_post L toxic_model a post = Inr a'"
  shows "\<exists>lab tox r. results a' = results a @ [(post, lab, tox)]
           \<and> rendered_2dp s r
           \<and> (float_0_5 < s \<longrightarrow> tox = [0x26A0, 0xFE0F] @ ascii '' Toxic ('' @ r @ ascii '')'')
           \<and> (s \<le> float_0_5 \<longrightarrow> tox = [0x2705] @ ascii '' Safe ('' @ r @ ascii '')'')
           \<and> (float_0_5 < s) = (tox = toxic_text s)
           \<and> (s \<le> float_0_5) = (tox = safe_text s)"
proof -
  from assms(2) obtain lab s' tox tc where
    s': "toxic_score_of toxic_model post = Inr s'"
    and tb: "toxicity_branch s' (toxic_counts a) = Inr (tox, tc)"
    and res: "results a' = results a @ [(post, lab, tox)]"
    by (rule analyze_post_Inr) simp
  from s' assms(1) have "s' = s" by simp
  with tb have tox: "tox = (if float_0_5 < s then toxic_text s else safe_text s)"
    using toxicity_branch_text by blast
  have r: "rendered_2dp s (fmt_2f s)" by (rule fmt_2f_rendered)
  have "(float_0_5 < s \<longrightarrow> tox = [0x26A0, 0xFE0F] @ ascii '' Toxic ('' @ fmt_2f s @ ascii '')'')
      \<and> (s \<le> float_0_5 \<longrightarrow> tox = [0x2705] @ ascii '' Safe ('' @ fmt_2f s @ ascii '')'')"
    using tox by (simp add: toxic_text_def safe_text_def)
  moreover have "(float_0_5 < s) = (tox = toxic_text s)"
    using tox toxic_text_neq_safe_text [of s s] by auto
  moreover have "(s \<le> float_0_5) = (tox = safe_text s)"
    using tox toxic_text_neq_safe_text [of s s] by auto
  ultimately show ?thesis using res r by blast
qed

theorem toxicity_threshold_witness:
  "toxic_score_of demo_model (Str (ascii ''I hate you'')) = Inr (9 / 10)
   \<and> float_0_5 < 9 / 10
   \<and> (\<exists>a' lab. analyze_post demo_lib demo_model acc0 (Str (ascii ''I hate you'')) = Inr a'
        \<and> results a' = [(Str (ascii ''I hate you''), lab,
                         [0x26A0, 0xFE0F] @ ascii '' Toxic (0.90)'')])"
proof -
  have h1: "toxic_score_of demo_model (Str (ascii ''I hate you'')) = Inr (9 / 10)"
    by (simp add: toxic_score_of_def demo_model_def item0_def ascii_def)
  note h2 = demo_hate
  have gt: "float_0_5 < 9 / 10" by (simp add: float_0_5_def)
  from toxicity_threshold [OF h1 h2] obtain lab tox where
    "results \<lparr>results = [(Str (ascii ''I hate you''), Negative, toxic_text (9 / 10))],
          sentiment_counts = [(Positive, 0), (Negative, 1), (Neutral, 0)],
          toxic_counts = [(Toxic, 1), (Safe, 0)]\<rparr>
       = results acc0 @ [(Str (ascii ''I hate you''), lab, tox)]"
    and "(float_0_5 < 9 / 10) = (tox = toxic_text (9 / 10))"
    by blast
  with gt have "tox = toxic_text (9 / 10)" by simp
  then have "tox = [0x26A0, 0xFE0F] @ ascii '' Toxic (0.90)''"
    by (simp add: toxic_text_def fmt_2f_demo ascii_def)
  with h1 h2 gt show ?thesis
    by (simp add: toxic_text_def fmt_2f_demo ascii_def)
qed

text \<open>
  C3. For an existing history table and a batch of Post Records, \<open>save_history\<close> loads
  the table, puts the rows of the batch after its rows, which stay as they are and in
  their order, writes the combined table to the file and returns it; no row is lost.
\<close>

theorem save_history_appends:
  assumes "load_history L f = Inr df_history"
    and "history_table df_history"
    and "history_table df_new"
  shows "\<exists>df_all. save_history L df_new f = (Inr df_all, Some (to_csv L df_all))
           \<and> columns df_all = history_columns
           \<and> rows df_all = rows df_history @ rows df_new
           \<and> length (rows df_all) = length (rows df_history) + length (rows df_new)
           \<and> history_table df_all"
proof -
  let ?all = "\<lparr>columns = history_columns, rows = rows df_history @ rows df_new\<rparr>"
  have "pd_concat df_history df_new = ?all"
    using assms(2,3) by (rule pd_concat_history_tables)
  then have "save_history L df_new f = (Inr ?all, Some (to_csv L ?all))"
    using assms(1) by (simp add: save_history_def Let_def)
  moreover have "history_table ?all"
    using assms(2,3) by (simp add: history_table_def)
  ultimately show ?thesis by auto
qed

theorem save_history_appends_witness:
  "load_history demo_lib (Some ''history'') = Inr demo_table
   \<and> history_table demo_table
   \<and> history_table (results_df \<lparr>results = [(Str (ascii ''fine''), Neutral, safe_text (1 / 2))],
        sentiment_counts = [], toxic_counts = []\<rparr>)
   \<and> (\<exists>df_all. save_history demo_lib
          (results_df \<lparr>results = [(Str (ascii ''fine''), Neutral, safe_text (1 / 2))],
             sentiment_counts = [], toxic_counts = []\<rparr>) (Some ''history'')
          = (Inr df_all, Some ''other'')
        \<and> rows df_all = [[Str (ascii ''old post''), Str Neutral, Str (safe_text (1 / 80))],
                          [Str (ascii ''fine''), Str Neutral, Str (safe_text (1 / 2))]])"
proof -
  let ?new = "results_df \<lparr>results = [(Str (ascii ''fine''), Neutral, safe_text (1 / 2))],
        sentiment_counts = [], toxic_counts = []\<rparr>"
  note h1 = load_history_demo
  note h2 = demo_table_history
  have h3: "history_table ?new" by (rule results_df_history_table)
  from save_history_appends [OF h1 h2 h3] obtain df_all where
    s: "save_history demo_lib ?new (Some ''history'') = (Inr df_all, Some (to_csv demo_lib df_all))"
    and r: "rows df_all = rows demo_table @ rows ?new"
    by blast
  from r have neq: "df_all \<noteq> demo_table"
    by (auto simp: demo_table_def results_df_def)
  then have "to_csv demo_lib df_all = ''other''" by (simp add: demo_lib_def)
  with s r h1 h2 h3 show ?thesis
    by (simp add: demo_table_def results_df_def)
qed

text \<open>
  C6. Without a history file \<open>load_history\<close> gives the empty table with exactly the
  columns Post, Sentiment and Toxicity and no rows; with a file it gives the table that
  \<open>read_csv\<close> reads from the whole content of the file.
\<close>

theorem load_history_cases:
  "load_history L None
     = Inr \<lparr>columns = [ascii ''Post'', ascii ''Sentiment'', ascii ''Toxicity''], rows = []\<rparr>
   \<and> load_history L (Some content) = read_csv L content"
  by (simp add: load_history_def history_columns_def)

text \<open>
  C5. The posts are processed in the order of the input and the batch of Post Records
  keeps that order; when both classifiers answer on every post the run produces the
  batch. For three posts with polarities \<open>0.6\<close>, \<open>-0.5\<close> and \<open>0.0\<close> the labels are
  Positive, Negative, Neutral in that order and each sentiment count is one.
\<close>

theorem batch_keeps_input_order:
  "(list_all (classifiable L toxic_model) posts \<longrightarrow>
      (\<exists>a. analyze_posts L toxic_model posts acc0 = Inr a
         \<and> map fst (results a) = posts
         \<and> map hd (rows (results_df a)) = posts))
   \<and> (polarity L p1 = Inr float_0_6 \<and> polarity L p2 = Inr (- float_0_5)
        \<and> polarity L p3 = Inr 0
        \<and> succeeds (toxic_score_of toxic_model p1) \<and> succeeds (toxic_score_of toxic_model p2)
        \<and> succeeds (toxic_score_of toxic_model p3) \<longrightarrow>
      (\<exists>a. analyze_posts L toxic_model [p1, p2, p3] acc0 = Inr a
         \<and> map (\<lambda>(post, sentiment_label, toxicity). sentiment_label) (results a)
             = [Positive, Negative, Neutral]
         \<and> sentiment_counts a = [(Positive, 1), (Negative, 1), (Neutral, 1)]))"
proof (intro conjI impI)
  assume ok: "list_all (classifiable L toxic_model) posts"
  from analyze_posts_succeeds [OF ok acc0_counts(1,2)] obtain a where
    run: "analyze_posts L toxic_model posts acc0 = Inr a"
    by (auto simp: succeeds_iff)
  from analyze_posts_order [OF run] have order: "map fst (results a) = posts"
    by (simp add: acc0_counts)
  have "map hd (rows (results_df a)) = map fst (results a)"
    by (simp add: results_df_def split_beta)
  with run order show "\<exists>a. analyze_posts L toxic_model posts acc0 = Inr a
         \<and> map fst (results a) = posts \<and> map hd (rows (results_df a)) = posts"
    by simp
next
  assume h: "polarity L p1 = Inr float_0_6 \<and> polarity L p2 = Inr (- float_0_5)
        \<and> polarity L p3 = Inr 0
        \<and> succeeds (toxic_score_of toxic_model p1) \<and> succeeds (toxic_score_of toxic_model p2)
        \<and> succeeds (toxic_score_of toxic_model p3)"
  then obtain x1 x2 x3 where
    x: "toxic_score_of toxic_model p1 = Inr x1" "toxic_score_of toxic_model p2 = Inr x2"
       "toxic_score_of toxic_model p3 = Inr x3"
    by (auto simp: succeeds_iff)
  have cmp: "float_0_2 < float_0_6" "\<not> float_0_2 < - float_0_5" "- float_0_5 < - float_0_2"
    "\<not> float_0_2 < 0" "\<not> 0 < - float_0_2"
    by (simp_all add: float_0_2_def float_0_5_def float_0_6_def)
  show "\<exists>a. analyze_posts L toxic_model [p1, p2, p3] acc0 = Inr a
         \<and> map (\<lambda>(post, sentiment_label, toxicity). sentiment_label) (results a)
             = [Positive, Negative, Neutral]
         \<and> sentiment_counts a = [(Positive, 1), (Negative, 1), (Neutral, 1)]"
    using h x cmp
    by (simp add: analyze_post_def acc0_def sentiment_branch_counts toxicity_branch_counts)
qed

theorem batch_keeps_input_order_witness:
  "list_all (classifiable demo_lib demo_model)
     [Str (ascii ''I love this!''), Str (ascii ''I hate you''), Str (ascii ''It is raining'')]
   \<and> polarity demo_lib (Str (ascii ''I love this!'')) = Inr float_0_6
   \<and> polarity demo_lib (Str (ascii ''I hate you'')) = Inr (- float_0_5)
   \<and> polarity demo_lib (Str (ascii ''It is raining'')) = Inr 0
   \<and> (\<exists>a. analyze_posts demo_lib demo_model
            [Str (ascii ''I love this!''), Str (ascii ''I hate you''), Str (ascii ''It is raining'')]
            acc0 = Inr a
        \<and> map fst (results a)
            = [Str (ascii ''I love this!''), Str (ascii ''I hate you''), Str (ascii ''It is raining'')]
        \<and> map (\<lambda>(post, sentiment_label, toxicity). sentiment_label) (results a)
            = [Positive, Negative, Neutral]
        \<and> sentiment_counts a = [(Positive, 1), (Negative, 1), (Neutral, 1)])"
proof -
  let ?p1 = "Str (ascii ''I love this!'')"
  let ?p2 = "Str (ascii ''I hate you'')"
  let ?p3 = "Str (ascii ''It is raining'')"
  let ?run = "analyze_posts demo_lib demo_model [?p1, ?p2, ?p3] acc0"
  note c = demo_classifiable
  note inst = batch_keeps_input_order [of demo_lib demo_model "[?p1, ?p2, ?p3]" ?p1 ?p2 ?p3]
  from inst [THEN conjunct1, rule_format, OF c] obtain a where
    a: "?run = Inr a" "map fst (results a) = [?p1, ?p2, ?p3]"
    by (elim exE conjE)
  have "polarity demo_lib ?p1 = Inr float_0_6
      \<and> polarity demo_lib ?p2 = Inr (- float_0_5) \<and> polarity demo_lib ?p3 = Inr 0
      \<and> succeeds (toxic_score_of demo_model ?p1) \<and> succeeds (toxic_score_of demo_model ?p2)
      \<and> succeeds (toxic_score_of demo_model ?p3)"
    by (intro conjI pol_demo tox_demo)
  from inst [THEN conjunct2, rule_format, OF this] obtain b where
    b: "?run = Inr b"
      "map (\<lambda>(post, sentiment_label, toxicity). sentiment_label) (results b)
         = [Positive, Negative, Neutral]"
      "sentiment_counts b = [(Positive, 1), (Negative, 1), (Neutral, 1)]"
    by (elim exE conjE)
  from b(1) a(1) have "Inr b = (Inr a :: error + acc)" by (rule trans [OF sym])
  then have "b = a" by (simp only: sum.inject)
  with b have b': "map (\<lambda>(post, sentiment_label, toxicity). sentiment_label) (results a)
         = [Positive, Negative, Neutral]"
      "sentiment_counts a = [(Positive, 1), (Negative, 1), (Neutral, 1)]"
    by (simp_all only:)
  have "\<exists>a. ?run = Inr a
        \<and> map fst (results a) = [?p1, ?p2, ?p3]
        \<and> map (\<lambda>(post, sentiment_label, toxicity). sentiment_label) (results a)
            = [Positive, Negative, Neutral]
        \<and> sentiment_counts a = [(Positive, 1), (Negative, 1), (Neutral, 1)]"
    by (rule exI [of _ a]) (intro conjI a b')
  then show ?thesis by (intro conjI c pol_demo)
qed

text \<open>
  C10. Each processed post increments exactly one of the three sentiment counts and
  exactly one of the two toxicity counts; after a run the three sentiment counts sum
  to the number of posts, the two toxicity counts sum to the same number, and that is
  the number of rows of the batch.
\<close>

theorem counts_sum_to_posts:
  "(analyze_posts L toxic_model posts acc0 = Inr a \<longrightarrow>
      (\<exists>p n u t s.
         sentiment_counts a = [(Positive, p), (Negative, n), (Neutral, u)]
         \<and> toxic_counts a = [(Toxic, t), (Safe, s)]
         \<and> p + n + u = int (length posts)
         \<and> t + s = int (length posts)
         \<and> length (results a) = length posts
         \<and> length (rows (results_df a)) = length posts))
   \<and> (analyze_post L toxic_model a0 post = Inr a1
        \<and> sentiment_counts a0 = [(Positive, p0), (Negative, n0), (Neutral, u0)]
        \<and> toxic_counts a0 = [(Toxic, t0), (Safe, s0)] \<longrightarrow>
      (\<exists>p1 n1 u1 t1 s1.
         sentiment_counts a1 = [(Positive, p1), (Negative, n1), (Neutral, u1)]
         \<and> toxic_counts a1 = [(Toxic, t1), (Safe, s1)]
         \<and> ((p1, n1, u1) = (p0 + 1, n0, u0) \<or> (p1, n1, u1) = (p0, n0 + 1, u0)
              \<or> (p1, n1, u1) = (p0, n0, u0 + 1))
         \<and> ((t1, s1) = (t0 + 1, s0) \<or> (t1, s1) = (t0, s0 + 1))))"
proof (intro conjI impI)
  assume run: "analyze_posts L toxic_model posts acc0 = Inr a"
  from analyze_posts_counts [OF run acc0_counts(1,2)] obtain p n u t s where
    "sentiment_counts a = [(Positive, p), (Negative, n), (Neutral, u)]"
    "toxic_counts a = [(Toxic, t), (Safe, s)]"
    "p + n + u = int (length posts)" "t + s = int (length posts)"
    "length (results a) = length posts"
    by (auto simp: acc0_counts)
  moreover have "length (rows (results_df a)) = length (results a)"
    by (simp add: results_df_def)
  ultimately show "\<exists>p n u t s.
         sentiment_counts a = [(Positive, p), (Negative, n), (Neutral, u)]
         \<and> toxic_counts a = [(Toxic, t), (Safe, s)]
         \<and> p + n + u = int (length posts)
         \<and> t + s = int (length posts)
         \<and> length (results a) = length posts
         \<and> length (rows (results_df a)) = length posts"
    by simp
next
  assume h: "analyze_post L toxic_model a0 post = Inr a1
        \<and> sentiment_counts a0 = [(Positive, p0), (Negative, n0), (Neutral, u0)]
        \<and> toxic_counts a0 = [(Toxic, t0), (Safe, s0)]"
  then have "\<exists>p' n' u' t' s'.
           sentiment_counts a1 = [(Positive, p'), (Negative, n'), (Neutral, u')]
           \<and> toxic_counts a1 = [(Toxic, t'), (Safe, s')]
           \<and> ((p', n', u') = (p0 + 1, n0, u0) \<or> (p', n', u') = (p0, n0 + 1, u0)
                \<or> (p', n', u') = (p0, n0, u0 + 1))
           \<and> ((t', s') = (t0 + 1, s0) \<or> (t', s') = (t0, s0 + 1))
           \<and> length (results a1) = length (results a0) + 1"
    using analyze_post_counts [of L toxic_model a0 post a1 p0 n0 u0 t0 s0] by blast
  then show "\<exists>p1 n1 u1 t1 s1.
         sentiment_counts a1 = [(Positive, p1), (Negative, n1), (Neutral, u1)]
         \<and> toxic_counts a1 = [(Toxic, t1), (Safe, s1)]
         \<and> ((p1, n1, u1) = (p0 + 1, n0, u0) \<or> (p1, n1, u1) = (p0, n0 + 1, u0)
              \<or> (p1, n1, u1) = (p0, n0, u0 + 1))
         \<and> ((t1, s1) = (t0 + 1, s0) \<or> (t1, s1) = (t0, s0 + 1))"
    by blast
qed

theorem counts_sum_to_posts_witness:
  "\<exists>a. analyze_posts demo_lib demo_model
          [Str (ascii ''I love this!''), Str (ascii ''I hate you''), Str (ascii ''It is raining'')]
          acc0 = Inr a
      \<and> (\<exists>p n u t s.
           sentiment_counts a = [(Positive, p), (Negative, n), (Neutral, u)]
           \<and> toxic_counts a = [(Toxic, t), (Safe, s)]
           \<and> p + n + u = int (length [Str (ascii ''I love this!''), Str (ascii ''I hate you''),
                 Str (ascii ''It is raining'')])
           \<and> t + s = int (length [Str (ascii ''I love this!''), Str (ascii ''I hate you''),
                 Str (ascii ''It is raining'')])
           \<and> length (results a) = length [Str (ascii ''I love this!''), Str (ascii ''I hate you''),
                 Str (ascii ''It is raining'')]
           \<and> length (rows (results_df a)) = length [Str (ascii ''I love this!''),
                 Str (ascii ''I hate you''), Str (ascii ''It is raining'')])
      \<and> sentiment_counts a = [(Positive, 1), (Negative, 1), (Neutral, 1)]
      \<and> toxic_counts a = [(Toxic, 1), (Safe, 2)]"
proof -
  define A where "A = \<lparr>results =
            [(Str (ascii ''I love this!''), Positive, safe_text (1 / 80)),
             (Str (ascii ''I hate you''), Negative, toxic_text (9 / 10)),
             (Str (ascii ''It is raining''), Neutral, safe_text (1 / 80))],
          sentiment_counts = [(Positive, 1), (Negative, 1), (Neutral, 1)],
          toxic_counts = [(Toxic, 1), (Safe, 2)]\<rparr>"
  have run: "analyze_posts demo_lib demo_model
      [Str (ascii ''I love this!''), Str (ascii ''I hate you''), Str (ascii ''It is raining'')]
      acc0 = Inr A"
    unfolding A_def by (rule demo_run)
  note sums = counts_sum_to_posts [THEN conjunct1, rule_format, OF run]
  have sc: "sentiment_counts A = [(Positive, 1), (Negative, 1), (Neutral, 1)]"
    "toxic_counts A = [(Toxic, 1), (Safe, 2)]"
    by (simp_all add: A_def)
  show ?thesis by (rule exI [of _ A]) (intro conjI run sums sc)
qed

text \<open>
  C7. An uploaded table without a column named exactly \<open>post\<close> does not start the
  analysis: the error message is all that the Analyzer tab shows, no post is
  classified, and the history file is the one from before the run.
\<close>

theorem upload_without_post_column:
  assumes "read_csv L content = Inr df"
    and "ascii ''post'' \<notin> set (columns df)"
  shows "analyzer_tab L toxic_model (Upload_CSV (Some content)) f
           = (Inr None, f, [Error must_contain_post])
         \<and> fst (snd (app L (Upload_CSV (Some content)) f)) = f"
  using csv_without_post_column [OF assms] app_csv_without_post_column [OF assms]
  by (intro conjI)

theorem upload_without_post_column_witness:
  "read_csv demo_lib ''upload'' = Inr demo_upload
   \<and> columns demo_upload = [ascii ''Post'']
   \<and> analyzer_tab demo_lib demo_model (Upload_CSV (Some ''upload'')) (Some ''history'')
       = (Inr None, Some ''history'', [Error must_contain_post])
   \<and> fst (snd (app demo_lib (Upload_CSV (Some ''upload'')) (Some ''history''))) = Some ''history''"
proof -
  note inst = upload_without_post_column [OF demo_upload_columns,
      of demo_model "Some ''history''"]
  have cols: "columns demo_upload = [ascii ''Post'']" by (simp add: demo_upload_def)
  show ?thesis
    by (intro conjI demo_upload_columns(1) cols inst [THEN conjunct1] inst [THEN conjunct2])
qed

text \<open>
  C8. When the classifier cannot be loaded, or the classifier raises or gives no
  \<open>toxic\<close> entry for some post, the run ends with that exception: no score is made up
  (a missing \<open>toxic\<close> entry is an IndexError), and the history file stays as it was,
  because \<open>save_history\<close> is reached only after every post of the batch was classified.
\<close>

theorem classifier_failure_is_fatal:
  "(load_model L = Inl e \<longrightarrow> app L action f = (Inl e, f, []))
   \<and> (toxic_model post = Inr (predictions # rest)
        \<and> list_all (\<lambda>p. label p \<noteq> ascii ''toxic'') predictions \<longrightarrow>
      toxic_score_of toxic_model post = Inl IndexError \<and> \<not> classifiable L toxic_model post)
   \<and> (toxic_model post = Inl e \<longrightarrow>
      toxic_score_of toxic_model post = Inl e \<and> \<not> classifiable L toxic_model post)
   \<and> (post \<in> set posts \<and> \<not> classifiable L toxic_model post \<longrightarrow>
      (\<exists>e'. analyze_posts L toxic_model posts acc0 = Inl e'
         \<and> run_analysis L toxic_model posts f = (Inl e', f, [])))
   \<and> (fst (snd (run_analysis L toxic_model posts f)) \<noteq> f \<longrightarrow>
      list_all (classifiable L toxic_model) posts)
   \<and> (load_model L = Inr toxic_model \<and> choose_posts L action = Inr (posts, shown)
        \<and> post \<in> set posts \<and> \<not> classifiable L toxic_model post \<longrightarrow>
      (\<exists>e'. app L action f = (Inl e', f, shown)))"
proof (intro conjI impI)
  assume "load_model L = Inl e"
  then show "app L action f = (Inl e, f, [])" by (rule app_model_unavailable)
next
  assume h: "toxic_model post = Inr (predictions # rest)
        \<and> list_all (\<lambda>p. label p \<noteq> ascii ''toxic'') predictions"
  then show absent: "toxic_score_of toxic_model post = Inl IndexError"
    using toxic_label_absent by blast
  then show "\<not> classifiable L toxic_model post" by (rule not_classifiable_toxic)
next
  assume "toxic_model post = Inl e"
  then show raised: "toxic_score_of toxic_model post = Inl e" by (rule toxic_backend_raises)
  then show "\<not> classifiable L toxic_model post" by (rule not_classifiable_toxic)
next
  assume h: "post \<in> set posts \<and> \<not> classifiable L toxic_model post"
  then obtain e' where "analyze_posts L toxic_model posts acc0 = Inl e'"
    using analyze_posts_fails by blast
  then show "\<exists>e'. analyze_posts L toxic_model posts acc0 = Inl e'
         \<and> run_analysis L toxic_model posts f = (Inl e', f, [])"
    using run_analysis_failure by blast
next
  assume "fst (snd (run_analysis L toxic_model posts f)) \<noteq> f"
  then have "succeeds (analyze_posts L toxic_model posts acc0)"
    by (rule run_analysis_writes_only_after_success)
  then show "list_all (classifiable L toxic_model) posts"
    using analyze_posts_Inr_classifiable by (auto simp: succeeds_iff)
next
  assume "load_model L = Inr toxic_model \<and> choose_posts L action = Inr (posts, shown)
        \<and> post \<in> set posts \<and> \<not> classifiable L toxic_model post"
  then show "\<exists>e'. app L action f = (Inl e', f, shown)"
    using app_failure by blast
qed

theorem classifier_failure_is_fatal_witness:
  "load_model demo_lib = Inr demo_model
   \<and> choose_posts demo_lib (Enter_Text (ascii ''I love this!'' @ [10] @ ascii ''odd'') True)
       = Inr ([Str (ascii ''I love this!''), Str (ascii ''odd'')], [])
   \<and> classifiable demo_lib demo_model (Str (ascii ''I love this!''))
   \<and> toxic_score_of demo_model (Str (ascii ''odd'')) = Inl IndexError
   \<and> (\<exists>e'. app demo_lib (Enter_Text (ascii ''I love this!'' @ [10] @ ascii ''odd'') True)
              (Some ''history'') = (Inl e', Some ''history'', []))"
proof -
  let ?action = "Enter_Text (ascii ''I love this!'' @ [10] @ ascii ''odd'') True"
  let ?odd = "Str (ascii ''odd'')"
  note inst = classifier_failure_is_fatal [of demo_lib _ ?action "Some ''history''"
      demo_model ?odd "[\<lparr>label = ascii ''insult'', score = 1 / 10\<rparr>]" "[]"
      "[Str (ascii ''I love this!''), ?odd]" "[]"]
  have lm: "load_model demo_lib = Inr demo_model"
    by (simp add: load_model_def demo_lib_def)
  have love: "classifiable demo_lib demo_model (Str (ascii ''I love this!''))"
    using demo_classifiable by simp
  have absent: "toxic_score_of demo_model ?odd = Inl IndexError"
    using inst [THEN conjunct2, THEN conjunct1, rule_format]
      demo_odd_not_classifiable(1,2) by blast
  have mem: "?odd \<in> set [Str (ascii ''I love this!''), ?odd]" by simp
  have "load_model demo_lib = Inr demo_model
      \<and> choose_posts demo_lib ?action = Inr ([Str (ascii ''I love this!''), ?odd], [])
      \<and> ?odd \<in> set [Str (ascii ''I love this!''), ?odd]
      \<and> \<not> classifiable demo_lib demo_model ?odd"
    by (intro conjI lm text_posts_demo_odd mem demo_odd_not_classifiable(3))
  then have fatal: "\<exists>e'. app demo_lib ?action (Some ''history'') = (Inl e', Some ''history'', [])"
    by (rule inst [THEN conjunct2, THEN conjunct2, THEN conjunct2, THEN conjunct2,
          THEN conjunct2, rule_format])
  show ?thesis by (intro conjI lm text_posts_demo_odd love absent fatal)
qed

text \<open>
  C4. The claim is that blank lines of the text area are dropped before classification.
  The script trims the input as a whole and cuts it at the line feeds, so a blank line
  between two posts is a post of its own: on the input of the lines \<open>a\<close>, an empty
  line and \<open>b\<close>, the empty string is classified, shown and written to the history.
\<close>

theorem blank_line_is_classified:
  "text_posts (ascii ''a'' @ [10, 10] @ ascii ''b'') True
     = ([Str (ascii ''a''), Str [], Str (ascii ''b'')], [])
   \<and> py_strip [] = []
   \<and> (\<exists>a shown.
        analyzer_tab demo_lib demo_model (Enter_Text (ascii ''a'' @ [10, 10] @ ascii ''b'') True) None
          = (Inr (Some a),
             Some (to_csv demo_lib
               \<lparr>columns = history_columns,
                rows = [[Str (ascii ''a''), Str Neutral, Str (safe_text (1 / 80))],
                        [Str [], Str Neutral, Str (safe_text (1 / 80))],
                        [Str (ascii ''b''), Str Neutral, Str (safe_text (1 / 80))]]\<rparr>),
             shown)
        \<and> results a = [(Str (ascii ''a''), Neutral, safe_text (1 / 80)),
                        (Str [], Neutral, safe_text (1 / 80)),
                        (Str (ascii ''b''), Neutral, safe_text (1 / 80))]
        \<and> Dataframe (results_df a) \<in> set shown)"
proof -
  let ?input = "ascii ''a'' @ [10, 10] @ ascii ''b''"
  let ?posts = "[Str (ascii ''a''), Str [], Str (ascii ''b'')]"
  define A where "A = \<lparr>results =
            [(Str (ascii ''a''), Neutral, safe_text (1 / 80)),
             (Str [], Neutral, safe_text (1 / 80)),
             (Str (ascii ''b''), Neutral, safe_text (1 / 80))],
          sentiment_counts = [(Positive, 0), (Negative, 0), (Neutral, 3)],
          toxic_counts = [(Toxic, 0), (Safe, 3)]\<rparr>"
  have posts: "choose_posts demo_lib (Enter_Text ?input True) = Inr (?posts, [])"
    by (simp only: choose_posts_def user_action.case text_posts_blank_line)
  have run: "analyze_posts demo_lib demo_model ?posts acc0 = Inr A"
    unfolding A_def by (rule demo_blank_run)
  have load: "load_history demo_lib None = Inr \<lparr>columns = history_columns, rows = []\<rparr>"
    by (simp add: load_history_def)
  have cat: "pd_concat \<lparr>columns = history_columns, rows = []\<rparr> (results_df A)
      = \<lparr>columns = history_columns,
         rows = [[Str (ascii ''a''), Str Neutral, Str (safe_text (1 / 80))],
                 [Str [], Str Neutral, Str (safe_text (1 / 80))],
                 [Str (ascii ''b''), Str Neutral, Str (safe_text (1 / 80))]]\<rparr>"
    using pd_concat_history_tables [OF empty_history_table results_df_history_table, of A]
    by (simp add: results_df_def A_def)
  have tab: "analyzer_tab demo_lib demo_model (Enter_Text ?input True) None
      = (Inr (Some A),
         Some (to_csv demo_lib
           \<lparr>columns = history_columns,
            rows = [[Str (ascii ''a''), Str Neutral, Str (safe_text (1 / 80))],
                    [Str [], Str Neutral, Str (safe_text (1 / 80))],
                    [Str (ascii ''b''), Str Neutral, Str (safe_text (1 / 80))]]\<rparr>),
         [] @ [Subheader analysis_results, Dataframe (results_df A),
               Subheader sentiment_distribution, Pie_chart (sentiment_counts A),
               Subheader toxic_vs_safe, Bar_chart (toxic_counts A)])"
    using analyzer_tab_success [OF posts _ run load] by (simp only: cat list.distinct simp_thms)
  have res: "results A = [(Str (ascii ''a''), Neutral, safe_text (1 / 80)),
                        (Str [], Neutral, safe_text (1 / 80)),
                        (Str (ascii ''b''), Neutral, safe_text (1 / 80))]"
    by (simp add: A_def)
  have shown: "Dataframe (results_df A)
      \<in> set ([] @ [Subheader analysis_results, Dataframe (results_df A),
               Subheader sentiment_distribution, Pie_chart (sentiment_counts A),
               Subheader toxic_vs_safe, Bar_chart (toxic_counts A)])"
    by simp
  have strip: "py_strip [] = []" by (simp add: py_strip_def)
  from tab res shown have "\<exists>a shown.
        analyzer_tab demo_lib demo_model (Enter_Text ?input True) None
          = (Inr (Some a),
             Some (to_csv demo_lib
               \<lparr>columns = history_columns,
                rows = [[Str (ascii ''a''), Str Neutral, Str (safe_text (1 / 80))],
                        [Str [], Str Neutral, Str (safe_text (1 / 80))],
                        [Str (ascii ''b''), Str Neutral, Str (safe_text (1 / 80))]]\<rparr>),
             shown)
        \<and> results a = [(Str (ascii ''a''), Neutral, safe_text (1 / 80)),
                        (Str [], Neutral, safe_text (1 / 80)),
                        (Str (ascii ''b''), Neutral, safe_text (1 / 80))]
        \<and> Dataframe (results_df a) \<in> set shown"
    by (intro exI conjI)
  with text_posts_blank_line strip show ?thesis by (intro conjI)
qed

section \<open>Further properties\<close>

text \<open>
  What the text branch (lines 96-100) does with the text area when the button is
  pressed: an input that is blank as a whole gives no post and the warning; any other
  input is trimmed as a whole and cut at its line feeds, so the posts joined by line
  feeds are the trimmed input, no post holds a line feed, and the first post starts and
  the last post ends with a character that is not white space. Lines in between are
  kept as they are. Without the button nothing happens.
\<close>

theorem text_posts_are_lines_of_trimmed_input:
  "(py_strip user_input = [] \<longrightarrow> text_posts user_input True = ([], [Warning please_enter]))
   \<and> (py_strip user_input \<noteq> [] \<longrightarrow>
        (\<exists>ls. text_posts user_input True = (map Str ls, [])
           \<and> ls \<noteq> []
           \<and> concat (map (\<lambda>l. l @ [10]) ls) = py_strip user_input @ [10]
           \<and> list_all (\<lambda>l. 10 \<notin> set l) ls
           \<and> hd ls \<noteq> [] \<and> \<not> py_isspace (hd (hd ls))
           \<and> last ls \<noteq> [] \<and> \<not> py_isspace (last (last ls))))
   \<and> text_posts user_input False = ([], [])"
proof (intro conjI impI)
  assume "py_strip user_input = []"
  then show "text_posts user_input True = ([], [Warning please_enter])"
    by (simp add: text_posts_def)
next
  assume ne: "py_strip user_input \<noteq> []"
  let ?s = "py_strip user_input"
  let ?ls = "py_split 10 ?s"
  from py_strip_ends [OF ne] have ends: "\<not> py_isspace (hd ?s)" "\<not> py_isspace (last ?s)"
    by simp_all
  with py_isspace_line_feed have "hd ?s \<noteq> 10" "last ?s \<noteq> 10" by auto
  with ne have h: "hd ?ls \<noteq> []" "hd (hd ?ls) = hd ?s" "last ?ls \<noteq> []" "last (last ?ls) = last ?s"
    using py_split_hd [of ?s 10] py_split_last [of ?s 10] by simp_all
  have "text_posts user_input True = (map Str ?ls, [])"
    using ne by (simp add: text_posts_def)
  moreover have "?ls \<noteq> []" by (rule py_split_nonempty)
  moreover have "concat (map (\<lambda>l. l @ [10]) ?ls) = ?s @ [10]" by (rule py_split_concat)
  moreover have "list_all (\<lambda>l. 10 \<notin> set l) ?ls" by (rule py_split_no_sep)
  ultimately show "\<exists>ls. text_posts user_input True = (map Str ls, [])
           \<and> ls \<noteq> []
           \<and> concat (map (\<lambda>l. l @ [10]) ls) = py_strip user_input @ [10]
           \<and> list_all (\<lambda>l. 10 \<notin> set l) ls
           \<and> hd ls \<noteq> [] \<and> \<not> py_isspace (hd (hd ls))
           \<and> last ls \<noteq> [] \<and> \<not> py_isspace (last (last ls))"
    using h ends by auto
next
  show "text_posts user_input False = ([], [])" by (simp add: text_posts_def)
qed

theorem text_posts_are_lines_of_trimmed_input_witness:
  "py_strip (ascii ''  a'' @ [10, 10] @ ascii ''b '' @ [10]) = ascii ''a'' @ [10, 10] @ ascii ''b''
   \<and> (\<exists>ls. text_posts (ascii ''  a'' @ [10, 10] @ ascii ''b '' @ [10]) True = (map Str ls, [])
        \<and> ls \<noteq> []
        \<and> concat (map (\<lambda>l. l @ [10]) ls)
            = py_strip (ascii ''  a'' @ [10, 10] @ ascii ''b '' @ [10]) @ [10]
        \<and> list_all (\<lambda>l. 10 \<notin> set l) ls
        \<and> hd ls \<noteq> [] \<and> \<not> py_isspace (hd (hd ls))
        \<and> last ls \<noteq> [] \<and> \<not> py_isspace (last (last ls)))
   \<and> text_posts (ascii ''  a'' @ [10, 10] @ ascii ''b '' @ [10]) True
       = ([Str (ascii ''a''), Str [], Str (ascii ''b'')], [])"
proof -
  let ?input = "ascii ''  a'' @ [10, 10] @ ascii ''b '' @ [10]"
  have strip: "py_strip ?input = ascii ''a'' @ [10, 10] @ ascii ''b''"
    by (simp add: py_strip_def py_isspace_def ascii_def)
  then have ne: "py_strip ?input \<noteq> []" by (simp add: ascii_def)
  note lines = text_posts_are_lines_of_trimmed_input
    [of ?input, THEN conjunct2, THEN conjunct1, rule_format, OF ne]
  have posts: "text_posts ?input True = ([Str (ascii ''a''), Str [], Str (ascii ''b'')], [])"
    by (simp add: text_posts_def py_strip_def py_isspace_def ascii_def)
  show ?thesis by (intro conjI strip lines posts)
qed

text \<open>
  The upload branch (lines 102-109) with a column \<open>post\<close>: the posts are the cells of
  that column in row order without the missing ones, and nothing is shown by the
  branch; without an uploaded file there are no posts.
\<close>

theorem upload_posts_drop_missing:
  assumes "read_csv L content = Inr df"
    and "ascii ''post'' \<in> set (columns df)"
  shows "csv_posts L (Some content) = Inr (column_dropna df (ascii ''post''), [])
         \<and> NaN \<notin> set (column_dropna df (ascii ''post''))
         \<and> column_dropna df (ascii ''post'')
             = filter (\<lambda>v. v \<noteq> NaN) (map (\<lambda>r. cell_at (columns df) r (ascii ''post'')) (rows df))
         \<and> csv_posts L None = Inr ([], [])"
  using assms by (simp add: csv_posts_def column_dropna_def)

theorem upload_posts_drop_missing_witness:
  "csv_posts
     (demo_lib\<lparr>read_csv := \<lambda>content. Inr \<lparr>columns = [ascii ''id'', ascii ''post''],
        rows = [[Num 1, Str (ascii ''hello'')], [Num 2, NaN], [Num 3, Str (ascii ''bye'')]]\<rparr>\<rparr>)
     (Some ''upload'')
   = Inr ([Str (ascii ''hello''), Str (ascii ''bye'')], [])"
proof -
  let ?df = "\<lparr>columns = [ascii ''id'', ascii ''post''],
        rows = [[Num 1, Str (ascii ''hello'')], [Num 2, NaN], [Num 3, Str (ascii ''bye'')]]\<rparr>"
  let ?L = "demo_lib\<lparr>read_csv := \<lambda>content. Inr ?df\<rparr>"
  have h1: "read_csv ?L ''upload'' = Inr ?df" by simp
  have h2: "ascii ''post'' \<in> set (columns ?df)" by simp
  have "column_dropna ?df (ascii ''post'') = [Str (ascii ''hello''), Str (ascii ''bye'')]"
    by (simp add: column_dropna_def cell_at_def ascii_def)
  with upload_posts_drop_missing [OF h1 h2] show ?thesis by simp
qed

text \<open>
  A text area that is blank as a whole (lines 97-100): the warning is shown, the
  analysis is not entered and the history file stays as it was.
\<close>

theorem blank_text_only_warns:
  assumes "py_strip user_input = []"
  shows "analyzer_tab L toxic_model (Enter_Text user_input True) f
         = (Inr None, f, [Warning please_enter])"
  using assms by (simp add: analyzer_tab_def choose_posts_def text_posts_def)

theorem blank_text_only_warns_witness:
  "py_strip (ascii ''  '' @ [10, 9]) = []
   \<and> analyzer_tab demo_lib demo_model (Enter_Text (ascii ''  '' @ [10, 9]) True) (Some ''history'')
       = (Inr None, Some ''history'', [Warning please_enter])"
proof -
  have h: "py_strip (ascii ''  '' @ [10, 9]) = []"
    by (simp add: py_strip_def py_isspace_def ascii_def)
  from blank_text_only_warns [OF h] h show ?thesis by (intro conjI)
qed

text \<open>
  The History tab (lines 177-192): a history without rows gives the information text;
  otherwise the loaded table is shown and offered for download as the bytes that
  \<open>to_csv\<close> writes for it, under the fixed file name. The tab never writes the file.
\<close>

theorem history_tab_shows_loaded_table:
  assumes "load_history L f = Inr history_df"
  shows "history_tab L f =
           (if df_empty history_df then Inr [Info no_history]
            else Inr [Dataframe history_df,
                      Download_button download_label (to_csv L history_df)
                        (ascii ''cyberbro_full_history.csv'')])"
  using assms by (simp add: history_tab_def)

theorem history_tab_shows_loaded_table_witness:
  "load_history demo_lib None = Inr \<lparr>columns = history_columns, rows = []\<rparr>
   \<and> history_tab demo_lib None = Inr [Info no_history]
   \<and> history_tab demo_lib (Some ''history'')
       = Inr [Dataframe demo_table,
              Download_button download_label ''history'' (ascii ''cyberbro_full_history.csv'')]"
proof -
  have h1: "load_history demo_lib None = Inr \<lparr>columns = history_columns, rows = []\<rparr>"
    by (simp add: load_history_def)
  have e1: "df_empty \<lparr>columns = history_columns, rows = []\<rparr>" by (simp add: df_empty_def)
  have e2: "\<not> df_empty demo_table"
    by (simp add: df_empty_def demo_table_def history_columns_def)
  have csv: "to_csv demo_lib demo_table = ''history''" by (simp add: demo_lib_def)
  from history_tab_shows_loaded_table [OF h1] e1
  have a: "history_tab demo_lib None = Inr [Info no_history]"
    by simp
  from history_tab_shows_loaded_table [OF load_history_demo] e2 csv
  have b: "history_tab demo_lib (Some ''history'')
       = Inr [Dataframe demo_table,
              Download_button download_label ''history'' (ascii ''cyberbro_full_history.csv'')]"
    by simp
  from h1 a b show ?thesis by (intro conjI)
qed

end
